theory Spec2Isabelle
  imports Complex_Main "HOL-Library.Sublist"
begin

section \<open>Python primitives used by the scrapers\<close>

text \<open>
  Text is a \<^typ>\<open>string\<close>: a list of 8-bit characters, read as the UTF-8 bytes of the
  Python \<open>str\<close>. The model is exact on ASCII text. The only non-ASCII characters the
  source names are the arrows and dashes of the connector alternatives; they are matched
  as their UTF-8 byte sequences. Unicode digits, Unicode spaces and the case folding of
  non-ASCII letters are outside the model.

  Python floats are modelled by \<^typ>\<open>rat\<close>: \<open>float(s)\<close> of a decimal numeral is its
  exact value. Rounding to a double is monotone, so a strict comparison of two doubles
  that the source makes implies the same strict comparison of the exact values.
\<close>

definition is_upper :: "char \<Rightarrow> bool" where
  "is_upper c = (65 \<le> (of_char c :: nat) \<and> (of_char c :: nat) \<le> 90)"

definition is_lower :: "char \<Rightarrow> bool" where
  "is_lower c = (97 \<le> (of_char c :: nat) \<and> (of_char c :: nat) \<le> 122)"

definition is_digit :: "char \<Rightarrow> bool" where
  "is_digit c = (48 \<le> (of_char c :: nat) \<and> (of_char c :: nat) \<le> 57)"

definition is_space :: "char \<Rightarrow> bool" where
  \<comment> \<open>\<open>str.isspace\<close> on ASCII: tab, LF, VT, FF, CR, FS, GS, RS, US and the blank\<close>
  "is_space c = ((9 \<le> (of_char c :: nat) \<and> (of_char c :: nat) \<le> 13)
      \<or> (28 \<le> (of_char c :: nat) \<and> (of_char c :: nat) \<le> 32))"

definition is_word :: "char \<Rightarrow> bool" where
  \<comment> \<open>the class \<open>\w\<close> on ASCII\<close>
  "is_word c = (is_upper c \<or> is_lower c \<or> is_digit c \<or> c = CHR ''_'')"

definition lower_char :: "char \<Rightarrow> char" where
  "lower_char c = (if is_upper c then char_of (of_char c + (32 :: nat)) else c)"

definition upper_char :: "char \<Rightarrow> char" where
  "upper_char c = (if is_lower c then char_of (of_char c - (32 :: nat)) else c)"

definition py_lower :: "string \<Rightarrow> string" where
  "py_lower s = map lower_char s"

definition py_strip :: "string \<Rightarrow> string" where
  \<comment> \<open>\<open>s.strip()\<close>\<close>
  "py_strip s = rev (dropWhile is_space (rev (dropWhile is_space s)))"

definition py_rstrip :: "char \<Rightarrow> string \<Rightarrow> string" where
  \<comment> \<open>\<open>s.rstrip(c)\<close> for a one-character argument: every trailing \<open>c\<close> goes\<close>
  "py_rstrip c s = rev (dropWhile (\<lambda>x. x = c) (rev s))"

fun title_from :: "bool \<Rightarrow> string \<Rightarrow> string" where
  "title_from prev_cased [] = []"
| "title_from prev_cased (c # cs) =
     (if is_upper c \<or> is_lower c
      then (if prev_cased then lower_char c else upper_char c) # title_from True cs
      else c # title_from False cs)"

definition py_title :: "string \<Rightarrow> string" where
  \<comment> \<open>\<open>s.title()\<close>: a letter after a non-letter is upper-cased, any other letter lower-cased\<close>
  "py_title s = title_from False s"

definition py_in :: "string \<Rightarrow> string \<Rightarrow> bool" where
  \<comment> \<open>\<open>a in b\<close> on strings\<close>
  "py_in a b = (\<exists>t \<in> set (suffixes b). prefix a t)"

definition digit_val :: "char \<Rightarrow> nat" where
  "digit_val c = of_char c - 48"

definition digits_val :: "string \<Rightarrow> nat" where
  "digits_val s = foldl (\<lambda>n c. 10 * n + digit_val c) 0 s"

definition py_float :: "string \<Rightarrow> rat" where
  \<comment> \<open>\<open>float(s)\<close> for \<open>s\<close> matched by \<open>\d+(?:\.\d+)?\<close>: the integer part, then the
      fraction after the first dot\<close>
  "py_float s =
     (let ip = takeWhile (\<lambda>c. c \<noteq> CHR ''.'') s;
          fp = drop (Suc (length ip)) s
      in of_nat (digits_val ip) + of_nat (digits_val fp) / of_nat (10 ^ length fp))"

section \<open>Regular expressions as \<open>re\<close> matches them\<close>

text \<open>
  The patterns of the source use literals, the classes \<open>\d\<close> and \<open>\s\<close>, sequence, ordered
  alternation, greedy \<open>?\<close>, \<open>*\<close> and \<open>+\<close> over a class, capturing groups and \<open>\b\<close>.
  \<open>re\<close> is a backtracking matcher: alternatives are tried left to right, a greedy
  repetition takes the longest run first and gives characters back one at a time. The
  matcher below is that search, written with a continuation for the rest of the pattern.
  A position is the character before it (for \<open>\b\<close>) and the remaining text.
\<close>

datatype cls = Digit | Space

datatype rx =
    Eps
  | Ch char
  | Cl cls
  | Seq rx rx
  | Alt rx rx
  | StarC cls
  | Grp nat rx
  | WordB

type_synonym pos = "char option \<times> string"

type_synonym caps = "(nat \<times> string) list"

definition in_cls :: "cls \<Rightarrow> char \<Rightarrow> bool" where
  "in_cls k c = (case k of Digit \<Rightarrow> is_digit c | Space \<Rightarrow> is_space c)"

definition ch_eq :: "bool \<Rightarrow> char \<Rightarrow> char \<Rightarrow> bool" where
  \<comment> \<open>a literal against a character, under \<open>re.IGNORECASE\<close> or not\<close>
  "ch_eq ic a x = (if ic then lower_char a = lower_char x else a = x)"

definition at_boundary :: "pos \<Rightarrow> bool" where
  "at_boundary p =
     ((case fst p of None \<Rightarrow> False | Some c \<Rightarrow> is_word c)
      \<noteq> (case snd p of [] \<Rightarrow> False | c # _ \<Rightarrow> is_word c))"

fun star_run :: "cls \<Rightarrow> string \<Rightarrow> pos \<Rightarrow> (string \<Rightarrow> pos \<Rightarrow> 'a option) \<Rightarrow> 'a option" where
  "star_run k acc (pv, []) cont = cont acc (pv, [])"
| "star_run k acc (pv, x # xs) cont =
     (if in_cls k x
      then (case star_run k (acc @ [x]) (Some x, xs) cont of
              Some r \<Rightarrow> Some r
            | None \<Rightarrow> cont acc (pv, x # xs))
      else cont acc (pv, x # xs))"

fun rmatch :: "bool \<Rightarrow> rx \<Rightarrow> pos \<Rightarrow> caps \<Rightarrow> (string \<Rightarrow> pos \<Rightarrow> caps \<Rightarrow> 'a option) \<Rightarrow> 'a option" where
  "rmatch ic Eps (pv, s) c cont = cont [] (pv, s) c"
| "rmatch ic (Ch a) (pv, []) c cont = None"
| "rmatch ic (Ch a) (pv, x # xs) c cont =
     (if ch_eq ic a x then cont [x] (Some x, xs) c else None)"
| "rmatch ic (Cl k) (pv, []) c cont = None"
| "rmatch ic (Cl k) (pv, x # xs) c cont =
     (if in_cls k x then cont [x] (Some x, xs) c else None)"
| "rmatch ic (Seq r1 r2) (pv, s) c cont =
     rmatch ic r1 (pv, s) c
       (\<lambda>u p1 c1. rmatch ic r2 p1 c1 (\<lambda>v p2 c2. cont (u @ v) p2 c2))"
| "rmatch ic (Alt r1 r2) (pv, s) c cont =
     (case rmatch ic r1 (pv, s) c cont of
        Some r \<Rightarrow> Some r
      | None \<Rightarrow> rmatch ic r2 (pv, s) c cont)"
| "rmatch ic (StarC k) (pv, s) c cont = star_run k [] (pv, s) (\<lambda>u p1. cont u p1 c)"
| "rmatch ic (Grp n r) (pv, s) c cont =
     rmatch ic r (pv, s) c (\<lambda>u p1 c1. cont u p1 ((n, u) # c1))"
| "rmatch ic WordB (pv, s) c cont = (if at_boundary (pv, s) then cont [] (pv, s) c else None)"

text \<open>Pattern notation: a literal string, a list of alternatives, \<open>r?\<close>, \<open>k+\<close>.\<close>

definition lit :: "string \<Rightarrow> rx" where
  "lit s = foldr (\<lambda>c r. Seq (Ch c) r) s Eps"

definition alts :: "rx list \<Rightarrow> rx" where
  \<comment> \<open>\<open>r1|r2|...|rn\<close>, for a non-empty list\<close>
  "alts rs = foldr Alt (butlast rs) (last rs)"

definition opt :: "rx \<Rightarrow> rx" where
  "opt r = Alt r Eps"

definition plus_c :: "cls \<Rightarrow> rx" where
  "plus_c k = Seq (Cl k) (StarC k)"

definition seqs :: "rx list \<Rightarrow> rx" where
  "seqs rs = foldr Seq rs Eps"

text \<open>
  A match object: the matched text, the position after it and the groups.
  \<open>pattern.match\<close> at one position, \<open>pattern.search\<close> from the leftmost position on, and
  \<open>pattern.findall\<close>, which resumes after each match (one character further after an
  empty match).
\<close>

type_synonym rmatch_obj = "string \<times> pos \<times> caps"

definition match_at :: "bool \<Rightarrow> rx \<Rightarrow> pos \<Rightarrow> rmatch_obj option" where
  "match_at ic r p = rmatch ic r p [] (\<lambda>u p1 c1. Some (u, p1, c1))"

fun search_from :: "bool \<Rightarrow> rx \<Rightarrow> char option \<Rightarrow> string \<Rightarrow> rmatch_obj option" where
  "search_from ic r pv [] = match_at ic r (pv, [])"
| "search_from ic r pv (x # xs) =
     (case match_at ic r (pv, x # xs) of
        Some m \<Rightarrow> Some m
      | None \<Rightarrow> search_from ic r (Some x) xs)"

definition re_search :: "bool \<Rightarrow> rx \<Rightarrow> string \<Rightarrow> rmatch_obj option" where
  "re_search ic r s = search_from ic r None s"

definition group :: "rmatch_obj \<Rightarrow> nat \<Rightarrow> string option" where
  \<comment> \<open>\<open>m.group(n)\<close>: \<open>None\<close> for a group that took no part in the match\<close>
  "group m n = map_of (snd (snd m)) n"

definition group_str :: "rmatch_obj \<Rightarrow> nat \<Rightarrow> string" where
  \<comment> \<open>a group as \<open>findall\<close> reports it: the empty string when it took no part\<close>
  "group_str m n = (case group m n of None \<Rightarrow> [] | Some s \<Rightarrow> s)"

function findall_from :: "bool \<Rightarrow> rx \<Rightarrow> char option \<Rightarrow> string \<Rightarrow> rmatch_obj list" where
  "findall_from ic r pv s =
     (case match_at ic r (pv, s) of
        None \<Rightarrow> (case s of [] \<Rightarrow> [] | x # xs \<Rightarrow> findall_from ic r (Some x) xs)
      | Some m \<Rightarrow>
          (if length (snd (fst (snd m))) < length s
           then m # findall_from ic r (fst (fst (snd m))) (snd (fst (snd m)))
           else m # (case s of [] \<Rightarrow> [] | x # xs \<Rightarrow> findall_from ic r (Some x) xs)))"
  by pat_completeness auto
termination
  by (relation "measure (\<lambda>(ic, r, pv, s). length s)") auto

definition re_findall :: "bool \<Rightarrow> rx \<Rightarrow> string \<Rightarrow> rmatch_obj list" where
  "re_findall ic r s = findall_from ic r None s"

fun no_match_before :: "bool \<Rightarrow> rx \<Rightarrow> char option \<Rightarrow> string \<Rightarrow> string \<Rightarrow> bool" where
  \<comment> \<open>in the text \<open>pre @ rest\<close>, read from a position after \<open>pv\<close>, the pattern matches at
      no position of \<open>pre\<close>\<close>
  "no_match_before ic r pv [] rest = True"
| "no_match_before ic r pv (x # xs) rest =
     (match_at ic r (pv, x # xs @ rest) = None \<and> no_match_before ic r (Some x) xs rest)"

section \<open>Lexicon and pattern bank\<close>

subsection \<open>\<open>reddit_public_scraper.py\<close>\<close>

definition KNOWN_BRANDS :: "string list" where
  "KNOWN_BRANDS = [
    ''tropicana'', ''lays'', ''lay's'', ''doritos'', ''gatorade'', ''pepsi'', ''coca-cola'',
     ''coke'', ''hellmann's'', ''hellmanns'', ''unilever'', ''general mills'', ''cheerios'',
     ''nature valley'', ''tide'', ''dawn'', ''bounty'', ''charmin'', ''folgers'',
     ''maxwell house'', ''starbucks'', ''oreo'', ''nabisco'', ''mondelez'', ''campbell's'',
     ''campbells'', ''kraft'', ''heinz'', ''heinz ketchup'', ''kellogg's'', ''kelloggs'',
     ''special k'', ''frosted flakes'', ''quaker'', ''pepsico'', ''post'', ''planters'',
     ''skippy'', ''jif'', ''peanut butter'', ''trader joe's'', ''trader joes'', ''costco'',
     ''kirkland'', ''whole foods'', ''365'', ''ben & jerry's'', ''haagen-dazs'', ''breyers'',
     ''blue bell'', ''tyson'', ''perdue'', ''oscar mayer'', ''ball park'',
     ''hebrew national'', ''minute maid'', ''simply orange'', ''florida's natural'',
     ''colgate'', ''crest'', ''oral-b'', ''listerine'', ''febreze'', ''glad'', ''ziploc'',
     ''scotch-brite'', ''stouffer's'', ''lean cuisine'', ''marie callender's'',
     ''progresso'', ''amy's'', ''annie's'', ''horizon'', ''tostitos'', ''ruffles'',
     ''cheetos'', ''fritos'', ''sun chips'', ''pringles'', ''wheat thins'', ''triscuit'',
     ''ritz'', ''goldfish'', ''hershey'', ''reese's'', ''kit kat'', ''snickers'', ''m&m's'',
     ''twix'', ''nestle'', ''nescafe'', ''coffee mate'', ''dreyer's'', ''edy's'',
     ''tillamook'', ''chobani'', ''yoplait'', ''dannon'', ''oikos'', ''oscar mayer'',
     ''jimmy dean'', ''johnsonville'', ''hillshire'', ''goya'', ''old el paso'',
     ''taco bell'', ''mission'', ''barilla'', ''ragu'', ''prego'', ''classico'',
     ''bertolli'', ''hidden valley'', ''ranch'', ''french's'', ''grey poupon'', ''velveeta'',
     ''philadelphia'', ''sargento'', ''borden'', ''totino's'', ''digiorno'', ''red baron'',
     ''tombstone'', ''hot pocket'', ''hot pockets'', ''bagel bites'', ''frito-lay'',
     ''frito lay'', ''pepperidge farm'', ''smucker's'', ''smuckers'', ''welch's'',
     ''welchs'', ''aunt jemima'', ''pearl milling'', ''mrs butterworth'', ''wonder bread'',
     ''sara lee'', ''arnold'', ''dave's killer bread'', ''thomas'' @ [CHR 0x27], ''thomas'',
     ''entenmann's'', ''entenmanns'', ''little debbie'', ''hostess'', ''drake's'', ''scott'',
     ''cottonelle'', ''viva'', ''kleenex'', ''puffs'', ''huggies'', ''pampers'', ''luvs'',
     ''downy'', ''gain'', ''all'', ''arm & hammer'', ''oxiclean'', ''clorox'', ''lysol'',
     ''pine-sol'', ''mr clean'', ''dial'', ''irish spring'', ''dove'', ''ivory'', ''olay'',
     ''pantene'', ''head & shoulders'', ''suave'', ''tresemme'', ''toblerone'', ''cadbury'',
     ''lindt'', ''ghirardelli'', ''godiva'']"

definition number_rx :: rx where
  \<comment> \<open>\<open>\d+(?:\.\d+)?\<close>\<close>
  "number_rx = Seq (plus_c Digit) (opt (Seq (Ch CHR ''.'') (plus_c Digit)))"

definition plural :: "string \<Rightarrow> rx" where
  \<comment> \<open>\<open>word[s]?\<close>\<close>
  "plural w = Seq (lit w) (opt (Ch CHR ''s''))"

definition dotted :: "string \<Rightarrow> string \<Rightarrow> rx" where
  \<comment> \<open>\<open>a\.?\s*b\<close>, as in \<open>fl\.?\s*oz\<close>\<close>
  "dotted a b = seqs [lit a, opt (Ch CHR ''.''), StarC Space, lit b]"

definition rarrow :: string where
  \<comment> \<open>U+2192, rightwards arrow\<close>
  "rarrow = [CHR 0xE2, CHR 0x86, CHR 0x92]"

definition long_rarrow :: string where
  \<comment> \<open>U+27F6, long rightwards arrow\<close>
  "long_rarrow = [CHR 0xE2, CHR 0x9F, CHR 0xB6]"

definition en_dash :: string where
  \<comment> \<open>U+2013\<close>
  "en_dash = [CHR 0xE2, CHR 0x80, CHR 0x93]"

definition em_dash :: string where
  \<comment> \<open>U+2014\<close>
  "em_dash = [CHR 0xE2, CHR 0x80, CHR 0x94]"

definition unit_alts :: rx where
  \<comment> \<open>the unit alternatives of \<open>UNIT_PATTERN\<close>\<close>
  "unit_alts = alts [lit ''oz'', dotted ''fl'' ''oz'', plural ''ounce'', plural ''lb'',
     plural ''pound'', lit ''g'', plural ''gram'', lit ''kg'', lit ''ml'', plural ''liter'',
     lit ''l'', lit ''ct'', lit ''count'', lit ''pack'', plural ''piece'', plural ''sheet'',
     plural ''roll'', dotted ''sq'' ''ft'', lit ''pt'', plural ''pint'', lit ''qt'',
     plural ''quart'', lit ''gal'', plural ''gallon'']"

definition UNIT_PATTERN :: rx where
  "UNIT_PATTERN = seqs [Grp 1 number_rx, StarC Space, Grp 2 unit_alts]"

definition PRICE_PATTERN :: rx where
  \<comment> \<open>\<open>\$\s*(\d+(?:\.\d{1,2})?)\<close>\<close>
  "PRICE_PATTERN = seqs [Ch CHR ''$'', StarC Space,
     Grp 1 (Seq (plus_c Digit) (opt (seqs [Ch CHR ''.'', Cl Digit, opt (Cl Digit)])))]"

definition from_to_units :: rx where
  \<comment> \<open>the unit alternatives of \<open>FROM_TO_PATTERN\<close>\<close>
  "from_to_units = alts [lit ''oz'', dotted ''fl'' ''oz'', plural ''ounce'', plural ''lb'',
     plural ''pound'', lit ''g'', plural ''gram'', lit ''kg'', lit ''ml'', lit ''ct'',
     lit ''count'', lit ''pack'', plural ''sheet'', plural ''roll'', lit ''pt'',
     plural ''pint'', lit ''qt'', plural ''quart'', lit ''gal'', plural ''gallon'']"

definition from_to_cue :: rx where
  "from_to_cue = alts [lit ''from'', lit ''was'', lit ''went from'', lit ''used to be'',
     lit ''previously'', Seq (lit ''old'') (opt (Ch CHR '':'')), lit ''originally'',
     lit ''started at'']"

definition from_to_connector :: rx where
  "from_to_connector = alts [lit ''to'', lit ''now'', lit rarrow, lit ''->'', lit ''-->'',
     lit en_dash, lit em_dash, lit ''-'', lit ''down to'', lit ''reduced to'',
     lit ''shrunk to'', lit ''changed to'']"

definition FROM_TO_PATTERN :: rx where
  "FROM_TO_PATTERN = seqs [from_to_cue, plus_c Space,
     Grp 1 number_rx, StarC Space, opt (Grp 2 from_to_units),
     StarC Space, from_to_connector, StarC Space,
     Grp 3 number_rx, StarC Space, opt (Grp 4 from_to_units)]"

definition arrow_units :: rx where
  "arrow_units = alts [lit ''oz'', dotted ''fl'' ''oz'', lit ''g'', plural ''gram'',
     lit ''ml'', plural ''lb'', lit ''ct'', lit ''count'', plural ''sheet'', plural ''roll'']"

definition arrow_connector :: rx where
  "arrow_connector = alts [lit rarrow, lit ''->'', lit ''-->'', lit long_rarrow, lit ''to'',
     Seq (lit ''vs'') (opt (Ch CHR ''.'')), lit ''versus'', lit ''down to'']"

definition ARROW_PATTERN :: rx where
  "ARROW_PATTERN = seqs [Grp 1 number_rx, StarC Space, Grp 2 arrow_units,
     StarC Space, arrow_connector, StarC Space,
     Grp 3 number_rx, StarC Space, opt (Grp 4 arrow_units)]"

definition shrink_words :: "rx list" where
  "shrink_words = [lit ''shrinkflation'', lit ''shrunk'', lit ''smaller'', lit ''reduced'',
     lit ''less'', lit ''shrank'', lit ''downsized'', lit ''downsizing'', lit ''size cut'',
     lit ''weight cut'', lit ''ounces less'', lit ''fewer ounces'', lit ''net weight'',
     lit ''same price'', lit ''price increase'', lit ''got smaller'', lit ''getting smaller'',
     lit ''they reduced'', lit ''they cut'', lit ''less product'',
     seqs [lit ''rip'', opt (Alt (Ch CHR ''-'') (Ch CHR '' '')), lit ''off''],
     lit ''same box'', lit ''same package'', lit ''smaller amount'']"

definition SHRINK_KEYWORDS :: rx where
  "SHRINK_KEYWORDS = seqs [WordB, Grp 1 (alts (shrink_words @ [lit ''used to be'',
     lit ''went from'', lit ''half the size'',
     seqs [lit ''thin'', opt (Ch CHR ''n''), lit ''er''], lit ''narrower'', lit ''shorter'',
     lit ''lighter'', lit ''watered down'', lit ''diluted'', lit ''fewer count'',
     lit ''less sheets'', lit ''less rolls'', lit ''family size'', lit ''not as big'',
     lit ''getting ripped off''])), WordB]"

subsection \<open>\<open>reddit_scraper.py\<close>\<close>

text \<open>
  The PRAW scraper has a lexicon and patterns of its own: a shorter brand list, fewer
  units, cue words and connectors, and no arrow pattern. Its \<open>PRICE_PATTERN\<close> is the same.
\<close>

definition praw_KNOWN_BRANDS :: "string list" where
  "praw_KNOWN_BRANDS = [
    ''tropicana'', ''lays'', ''lay's'', ''doritos'', ''gatorade'', ''pepsi'', ''coca-cola'',
     ''coke'', ''hellmann's'', ''hellmanns'', ''unilever'', ''general mills'', ''cheerios'',
     ''nature valley'', ''tide'', ''dawn'', ''bounty'', ''charmin'', ''folgers'',
     ''maxwell house'', ''starbucks'', ''oreo'', ''nabisco'', ''mondelez'', ''campbell's'',
     ''campbells'', ''kraft'', ''heinz'', ''heinz ketchup'', ''kellogg's'', ''kelloggs'',
     ''special k'', ''frosted flakes'', ''quaker'', ''pepsico'', ''post'', ''planters'',
     ''skippy'', ''jif'', ''peanut butter'', ''trader joe's'', ''trader joes'', ''costco'',
     ''kirkland'', ''whole foods'', ''365'', ''ben & jerry's'', ''haagen-dazs'', ''breyers'',
     ''blue bell'', ''tyson'', ''perdue'', ''oscar mayer'', ''ball park'',
     ''hebrew national'', ''minute maid'', ''simply orange'', ''florida's natural'',
     ''colgate'', ''crest'', ''oral-b'', ''listerine'', ''febreze'', ''glad'', ''ziploc'',
     ''scotch-brite'', ''stouffer's'', ''lean cuisine'', ''marie callender's'',
     ''progresso'', ''amy's'', ''annie's'', ''horizon'']"

definition praw_UNIT_PATTERN :: rx where
  "praw_UNIT_PATTERN = seqs [Grp 1 number_rx, StarC Space,
     Grp 2 (alts [lit ''oz'', dotted ''fl'' ''oz'', plural ''ounce'', plural ''lb'',
       plural ''pound'', lit ''g'', plural ''gram'', lit ''ml'', plural ''liter'', lit ''ct'',
       lit ''count'', lit ''pack'', plural ''piece'', plural ''sheet''])]"

definition praw_from_to_units :: rx where
  "praw_from_to_units = alts [lit ''oz'', dotted ''fl'' ''oz'', plural ''ounce'',
     plural ''lb'', plural ''pound'', lit ''g'', plural ''gram'', lit ''ml'', lit ''ct'',
     lit ''count'']"

definition praw_FROM_TO_PATTERN :: rx where
  "praw_FROM_TO_PATTERN = seqs [
     alts [lit ''from'', lit ''was'', lit ''went from'', lit ''used to be'',
       lit ''previously'', Seq (lit ''old'') (opt (Ch CHR '':''))],
     plus_c Space,
     Grp 1 number_rx, StarC Space, opt (Grp 2 praw_from_to_units),
     StarC Space,
     alts [lit ''to'', lit ''now'', lit rarrow, lit ''->'', lit en_dash, lit ''-''],
     StarC Space,
     Grp 3 number_rx, StarC Space, opt (Grp 4 praw_from_to_units)]"

definition praw_SHRINK_KEYWORDS :: rx where
  "praw_SHRINK_KEYWORDS = seqs [WordB, Grp 1 (alts shrink_words), WordB]"

section \<open>Unit normalizer\<close>

definition unit_mapping :: "(string \<times> string) list" where
  "unit_mapping = [
     (''fl oz'', ''fl oz''), (''fl. oz'', ''fl oz''), (''ounce'', ''oz''),
     (''pound'', ''lb''), (''gram'', ''g''), (''liter'', ''l''),
     (''pint'', ''pt''), (''quart'', ''qt''), (''gallon'', ''gal''),
     (''sheet'', ''sheets''), (''roll'', ''rolls''), (''piece'', ''ct''),
     (''sq ft'', ''sq ft''), (''sq. ft'', ''sq ft'')]"

definition dict_get :: "('k \<times> 'v) list \<Rightarrow> 'k \<Rightarrow> 'v \<Rightarrow> 'v" where
  \<comment> \<open>\<open>d.get(k, default)\<close>\<close>
  "dict_get d k dflt = (case map_of d k of None \<Rightarrow> dflt | Some v \<Rightarrow> v)"

definition normalize_unit :: "string option \<Rightarrow> string" where
  \<comment> \<open>the argument is \<open>None\<close> for an absent unit; \<open>not u\<close> holds of \<open>None\<close> and of the
      empty string\<close>
  "normalize_unit u =
     (case u of
        None \<Rightarrow> ''oz''
      | Some s \<Rightarrow>
          (if s = [] then ''oz''
           else let t = py_rstrip CHR ''s'' (py_strip (py_lower s))
                in dict_get unit_mapping t t))"



section \<open>Signal extractor\<close>

record signals =
  brand :: "string option"
  product_hint :: "string option"
  old_size :: "rat option"
  new_size :: "rat option"
  old_unit :: "string option"
  new_unit :: "string option"
  old_price :: "rat option"
  new_price :: "rat option"
  fields_found :: int
  explicit_from_to :: bool

definition empty_signals :: signals where
  "empty_signals = \<lparr> brand = None, product_hint = None, old_size = None, new_size = None,
     old_unit = None, new_unit = None, old_price = None, new_price = None,
     fields_found = 0, explicit_from_to = False \<rparr>"

definition str_or :: "string option \<Rightarrow> string \<Rightarrow> string" where
  \<comment> \<open>\<open>x or d\<close> for an optional string \<open>x\<close>\<close>
  "str_or x d = (case x of None \<Rightarrow> d | Some s \<Rightarrow> if s = [] then d else s)"

definition brand_step :: "string list \<Rightarrow> string \<Rightarrow> signals \<Rightarrow> signals" where
  \<comment> \<open>the loop over the lexicon, left at the first brand that occurs in the text\<close>
  "brand_step brands text_lower r =
     (case find (\<lambda>b. py_in b text_lower) brands of
        None \<Rightarrow> r
      | Some b \<Rightarrow> r\<lparr> brand := Some (py_title b), fields_found := fields_found r + 1 \<rparr>)"

definition explicit_step :: "rmatch_obj option \<Rightarrow> signals \<Rightarrow> signals" where
  "explicit_step mo r =
     (case mo of
        None \<Rightarrow> r
      | Some m \<Rightarrow>
          (let old_val = py_float (group_str m 1);
               new_val = py_float (group_str m 3);
               old_u = normalize_unit (Some (str_or (group m 2) ''oz''));
               new_u = normalize_unit (Some (str_or (group m 4) old_u))
           in if old_val > new_val
              then r\<lparr> old_size := Some old_val, new_size := Some new_val,
                      old_unit := Some old_u, new_unit := Some new_u,
                      explicit_from_to := True, fields_found := fields_found r + 2 \<rparr>
              else if new_val > old_val
              then r\<lparr> old_size := Some new_val, new_size := Some old_val,
                      old_unit := Some new_u, new_unit := Some old_u,
                      explicit_from_to := True, fields_found := fields_found r + 2 \<rparr>
              else r))"

definition mentions :: "rmatch_obj list \<Rightarrow> (string \<times> string) list" where
  \<comment> \<open>what \<open>findall\<close> returns for a pattern of two groups\<close>
  "mentions ms = map (\<lambda>m. (group_str m 1, group_str m 2)) ms"

definition implicit_step :: "(string \<times> string) list \<Rightarrow> signals \<Rightarrow> signals" where
  "implicit_step units r =
     (if length units \<ge> 2
      then (let old_val = py_float (fst (hd units));
                old_u = normalize_unit (Some (snd (hd units)));
                new_val = py_float (fst (last units));
                new_u = normalize_unit (Some (snd (last units)))
            in if old_val \<noteq> new_val \<and> old_u = new_u
               then (if old_val > new_val
                     then r\<lparr> old_size := Some old_val, new_size := Some new_val \<rparr>
                     else r\<lparr> old_size := Some new_val, new_size := Some old_val \<rparr>)
                    \<lparr> old_unit := Some old_u, new_unit := Some new_u,
                      fields_found := fields_found r + 1 \<rparr>
               else r)
      else if length units = 1
      then r\<lparr> new_size := Some (py_float (fst (hd units))),
              new_unit := Some (normalize_unit (Some (snd (hd units)))) \<rparr>
      else r)"

definition price_step :: "string list \<Rightarrow> signals \<Rightarrow> signals" where
  "price_step prices r =
     (if length prices \<ge> 2
      then r\<lparr> old_price := Some (py_float (hd prices)),
              new_price := Some (py_float (last prices)),
              fields_found := fields_found r + 1 \<rparr>
      else if length prices = 1
      then r\<lparr> new_price := Some (py_float (hd prices)) \<rparr>
      else r)"

definition first_line :: "string \<Rightarrow> string" where
  \<comment> \<open>\<open>text.strip().split("\n")[0][:120]\<close>\<close>
  "first_line text = take 120 (takeWhile (\<lambda>c. c \<noteq> CHR 0x0A) (py_strip text))"

definition strip_tag :: "string \<Rightarrow> string \<Rightarrow> string" where
  \<comment> \<open>\<open>re.sub(r"^\[?TAG\]?\s*", "", s, flags=re.IGNORECASE)\<close>: the pattern can match
      at the start only\<close>
  "strip_tag tag s =
     (case match_at True (seqs [opt (Ch CHR ''[''), lit tag, opt (Ch CHR '']''), StarC Space])
             (None, s) of
        None \<Rightarrow> s
      | Some m \<Rightarrow> snd (fst (snd m)))"

definition explicit_match :: "string \<Rightarrow> rmatch_obj option" where
  \<comment> \<open>\<open>FROM_TO_PATTERN.search(text)\<close>, and \<open>ARROW_PATTERN.search(text)\<close> when that finds
      nothing\<close>
  "explicit_match text =
     (case re_search True FROM_TO_PATTERN text of
        Some m \<Rightarrow> Some m
      | None \<Rightarrow> re_search True ARROW_PATTERN text)"

definition parse_text :: "string \<Rightarrow> signals" where
  "parse_text text =
     (let r1 = brand_step KNOWN_BRANDS (py_lower text) empty_signals;
          r2 = explicit_step (explicit_match text) r1;
          r3 = (if \<not> explicit_from_to r2
                then implicit_step (mentions (re_findall True UNIT_PATTERN text)) r2
                else r2);
          r4 = price_step (map (\<lambda>m. group_str m 1) (re_findall True PRICE_PATTERN text)) r3
      in r4\<lparr> product_hint :=
                Some (py_strip (strip_tag ''Discussion'' (strip_tag ''META'' (first_line text)))) \<rparr>)"

subsection \<open>The extractor of \<open>reddit_scraper.py\<close>\<close>

definition praw_unit :: "string \<Rightarrow> string" where
  \<comment> \<open>\<open>u.lower().rstrip("s")\<close>\<close>
  "praw_unit u = py_rstrip CHR ''s'' (py_lower u)"

definition praw_explicit_step :: "rmatch_obj \<Rightarrow> signals \<Rightarrow> signals" where
  "praw_explicit_step m r =
     (let old_u = praw_unit (str_or (group m 2) ''oz'')
      in r\<lparr> old_size := Some (py_float (group_str m 1)),
             old_unit := Some old_u,
             new_size := Some (py_float (group_str m 3)),
             new_unit := Some (praw_unit (str_or (group m 4) old_u)),
             explicit_from_to := True,
             fields_found := fields_found r + 2 \<rparr>)"

definition praw_implicit_step :: "(string \<times> string) list \<Rightarrow> signals \<Rightarrow> signals" where
  "praw_implicit_step units r =
     (if length units \<ge> 2
      then (let r' = r\<lparr> old_size := Some (py_float (fst (hd units))),
                        old_unit := Some (praw_unit (snd (hd units))),
                        new_size := Some (py_float (fst (last units))),
                        new_unit := Some (praw_unit (snd (last units))) \<rparr>
            in if old_size r' \<noteq> new_size r'
               then r'\<lparr> fields_found := fields_found r' + 1 \<rparr>
               else r')
      else if length units = 1
      then r\<lparr> new_size := Some (py_float (fst (hd units))),
              new_unit := Some (praw_unit (snd (hd units))) \<rparr>
      else r)"

definition praw_parse_text :: "string \<Rightarrow> signals" where
  "praw_parse_text text =
     (let r1 = brand_step praw_KNOWN_BRANDS (py_lower text) empty_signals;
          r3 = (case re_search True praw_FROM_TO_PATTERN text of
                  Some m \<Rightarrow> praw_explicit_step m r1
                | None \<Rightarrow> praw_implicit_step (mentions (re_findall True praw_UNIT_PATTERN text)) r1);
          r4 = price_step (map (\<lambda>m. group_str m 1) (re_findall True PRICE_PATTERN text)) r3
      in r4\<lparr> product_hint := Some (first_line text) \<rparr>)"

section \<open>Confidence classifier\<close>

datatype tier = Auto | Review | Discard

definition TIER_AUTO_THRESHOLD :: int where
  "TIER_AUTO_THRESHOLD = 3"

definition TIER_REVIEW_THRESHOLD :: int where
  "TIER_REVIEW_THRESHOLD = 1"

definition truthy_str :: "string option \<Rightarrow> bool" where
  \<comment> \<open>the truth value of an optional string: false for \<open>None\<close> and for the empty string\<close>
  "truthy_str x = (case x of None \<Rightarrow> False | Some s \<Rightarrow> s \<noteq> [])"

definition confidence_tier :: "signals \<Rightarrow> tier" where
  \<comment> \<open>the same function in both scrapers\<close>
  "confidence_tier parsed =
     (let f = fields_found parsed
      in if f \<ge> TIER_AUTO_THRESHOLD \<and> truthy_str (brand parsed) \<and> explicit_from_to parsed
         then Auto
         else if f \<ge> TIER_REVIEW_THRESHOLD then Review
         else Discard)"

definition tier_rank :: "tier \<Rightarrow> nat" where
  \<comment> \<open>the order discard < review < auto\<close>
  "tier_rank t = (case t of Discard \<Rightarrow> 0 | Review \<Rightarrow> 1 | Auto \<Rightarrow> 2)"

section \<open>Posts, staging entries and the scraping loops\<close>

text \<open>
  A post as the loops read it. \<open>subreddit\<close> and \<open>selftext\<close> may be missing from the JSON
  of the public scraper (\<open>None\<close>); a PRAW submission always has them. The clock stands for
  the \<open>datetime\<close> calls: the current time and the formatting of a timestamp.
\<close>

record post =
  permalink :: string
  title :: string
  selftext :: "string option"
  subreddit :: "string option"
  created_utc :: rat
  score :: int
  num_comments :: int

record clock =
  now_iso :: string
  now_month :: string
  iso_of :: "rat \<Rightarrow> string"
  iso_utc_of :: "rat \<Rightarrow> string"
  month_of :: "rat \<Rightarrow> string"

datatype status = Pending | Promoted

record staging_entry = signals +
  source_url :: string
  entry_subreddit :: string
  posted_utc :: "string option"
  scraped_utc :: string
  entry_tier :: tier
  entry_status :: "status option"
  entry_title :: string
  entry_score :: int
  entry_num_comments :: int
  date_noticed :: "string option"

record stats =
  seen :: nat
  skipped_dup :: nat
  auto_n :: nat
  review_n :: nat
  discard_n :: nat
  no_keyword :: nat

definition stats0 :: stats where
  "stats0 = \<lparr> seen = 0, skipped_dup = 0, auto_n = 0, review_n = 0, discard_n = 0,
     no_keyword = 0 \<rparr>"

definition count_tier :: "tier \<Rightarrow> stats \<Rightarrow> stats" where
  \<comment> \<open>\<open>stats[tier] += 1\<close>\<close>
  "count_tier t st =
     (case t of
        Auto \<Rightarrow> st\<lparr> auto_n := auto_n st + 1 \<rparr>
      | Review \<Rightarrow> st\<lparr> review_n := review_n st + 1 \<rparr>
      | Discard \<Rightarrow> st\<lparr> discard_n := discard_n st + 1 \<rparr>)"

definition post_url :: "post \<Rightarrow> string" where
  "post_url p =
     (if prefix ''/'' (permalink p) then ''https://reddit.com'' @ permalink p else permalink p)"

definition full_text :: "post \<Rightarrow> string" where
  \<comment> \<open>title, newline, selftext (empty when missing)\<close>
  "full_text p = title p @ [CHR 0x0A] @ str_or (selftext p) []"

definition build_entry :: "clock \<Rightarrow> post \<Rightarrow> signals \<Rightarrow> tier \<Rightarrow> staging_entry" where
  "build_entry clk p parsed t =
     \<lparr> brand = brand parsed, product_hint = product_hint parsed,
       old_size = old_size parsed, new_size = new_size parsed,
       old_unit = old_unit parsed, new_unit = new_unit parsed,
       old_price = old_price parsed, new_price = new_price parsed,
       fields_found = fields_found parsed, explicit_from_to = explicit_from_to parsed,
       source_url = post_url p,
       entry_subreddit = (case subreddit p of None \<Rightarrow> ''shrinkflation'' | Some s \<Rightarrow> s),
       posted_utc = (if created_utc p \<noteq> 0 then Some (iso_of clk (created_utc p)) else None),
       scraped_utc = now_iso clk,
       entry_tier = t,
       entry_status = Some Pending,
       entry_title = take 200 (title p),
       entry_score = score p,
       entry_num_comments = num_comments p,
       date_noticed = Some (if created_utc p \<noteq> 0 then month_of clk (created_utc p)
                            else now_month clk) \<rparr>"

definition has_keyword :: "rx \<Rightarrow> string \<Rightarrow> bool" where
  \<comment> \<open>\<open>KEYWORDS.search(text)\<close> as a truth value\<close>
  "has_keyword kw text = (re_search True kw text \<noteq> None)"

definition lacks_keyword :: "post \<Rightarrow> bool" where
  \<comment> \<open>the relevance filter of \<open>process_posts\<close>: a post of another subreddit without a
      topical keyword\<close>
  "lacks_keyword p =
     (py_lower (str_or (subreddit p) []) \<noteq> ''shrinkflation''
      \<and> \<not> has_keyword SHRINK_KEYWORDS (full_text p))"

definition process_post ::
  "clock \<Rightarrow> string set \<Rightarrow> staging_entry list \<times> string set \<times> stats \<Rightarrow> post
     \<Rightarrow> staging_entry list \<times> string set \<times> stats" where
  \<comment> \<open>one round of the loop of \<open>process_posts\<close>\<close>
  "process_post clk known_urls acc p =
     (case acc of (entries, new_urls, st) \<Rightarrow>
        (let st1 = st\<lparr> seen := seen st + 1 \<rparr>;
             url = post_url p
         in if url \<in> known_urls
            then (entries, new_urls, st1\<lparr> skipped_dup := skipped_dup st1 + 1 \<rparr>)
            else if lacks_keyword p
            then (entries, insert url new_urls, st1\<lparr> no_keyword := no_keyword st1 + 1 \<rparr>)
            else (let parsed = parse_text (full_text p);
                      t = confidence_tier parsed;
                      st2 = count_tier t st1
                  in (if t \<noteq> Discard then entries @ [build_entry clk p parsed t] else entries,
                      insert url new_urls, st2))))"

definition process_posts ::
  "clock \<Rightarrow> post list \<Rightarrow> string set \<Rightarrow> staging_entry list \<times> string set \<times> stats" where
  "process_posts clk posts known_urls = foldl (process_post clk known_urls) ([], {}, stats0) posts"

subsection \<open>The loop of \<open>run_scraper\<close> in \<open>reddit_scraper.py\<close>\<close>

record queue =
  q_auto :: "staging_entry list"
  q_review :: "staging_entry list"

definition praw_post_url :: "post \<Rightarrow> string" where
  \<comment> \<open>\<open>f"https://reddit.com{post.permalink}"\<close>, for the dedup and for the entry\<close>
  "praw_post_url p = ''https://reddit.com'' @ permalink p"

definition praw_build_entry :: "clock \<Rightarrow> post \<Rightarrow> signals \<Rightarrow> tier \<Rightarrow> staging_entry" where
  \<comment> \<open>this entry has neither a status nor a \<open>date_noticed\<close>\<close>
  "praw_build_entry clk p parsed t =
     \<lparr> brand = brand parsed, product_hint = product_hint parsed,
       old_size = old_size parsed, new_size = new_size parsed,
       old_unit = old_unit parsed, new_unit = new_unit parsed,
       old_price = old_price parsed, new_price = new_price parsed,
       fields_found = fields_found parsed, explicit_from_to = explicit_from_to parsed,
       source_url = praw_post_url p,
       entry_subreddit = str_or (subreddit p) [],
       posted_utc = Some (iso_utc_of clk (created_utc p)),
       scraped_utc = now_iso clk,
       entry_tier = t,
       entry_status = None,
       entry_title = take 200 (title p),
       entry_score = score p,
       entry_num_comments = num_comments p,
       date_noticed = None \<rparr>"

definition queue_append :: "tier \<Rightarrow> staging_entry \<Rightarrow> queue \<Rightarrow> queue" where
  \<comment> \<open>\<open>queue[tier].append(entry)\<close>, reached for the tiers auto and review only\<close>
  "queue_append t e q =
     (case t of
        Auto \<Rightarrow> q\<lparr> q_auto := q_auto q @ [e] \<rparr>
      | Review \<Rightarrow> q\<lparr> q_review := q_review q @ [e] \<rparr>
      | Discard \<Rightarrow> q)"

definition praw_process_post ::
  "bool \<Rightarrow> clock \<Rightarrow> string set \<Rightarrow> queue \<times> string set \<times> stats \<Rightarrow> post
     \<Rightarrow> queue \<times> string set \<times> stats" where
  "praw_process_post dry_run clk known_urls acc p =
     (case acc of (q, new_urls, st) \<Rightarrow>
        (let st1 = st\<lparr> seen := seen st + 1 \<rparr>;
             url = praw_post_url p
         in if url \<in> known_urls
            then (q, new_urls, st1\<lparr> skipped_dup := skipped_dup st1 + 1 \<rparr>)
            else if \<not> has_keyword praw_SHRINK_KEYWORDS (full_text p)
            then (q, insert url new_urls, st1\<lparr> no_keyword := no_keyword st1 + 1 \<rparr>)
            else (let parsed = praw_parse_text (full_text p);
                      t = confidence_tier parsed;
                      st2 = count_tier t st1
                  in (if \<not> dry_run \<and> t \<noteq> Discard
                      then queue_append t (praw_build_entry clk p parsed t) q else q,
                      insert url new_urls, st2))))"

definition praw_process_posts ::
  "bool \<Rightarrow> clock \<Rightarrow> post list \<Rightarrow> string set \<Rightarrow> queue \<Rightarrow> queue \<times> string set \<times> stats" where
  \<comment> \<open>the posts of all subreddits in turn, the queue being the one loaded from disk\<close>
  "praw_process_posts dry_run clk posts known_urls q0 =
     foldl (praw_process_post dry_run clk known_urls) (q0, {}, stats0) posts"

section \<open>Promotion engine\<close>

datatype py_error = TypeError | ZeroDivisionError | DbError

definition category_table :: "(rx \<times> string) list" where
  \<comment> \<open>the searches of \<open>guess_category\<close>, in the order of its \<open>if\<close> chain\<close>
  "category_table = [
     (alts [lit ''juice'', lit ''soda'', lit ''water'', lit ''drink'', lit ''coffee'',
        lit ''tea'', lit ''milk'', lit ''creamer'', lit ''gatorade'', lit ''powerade'',
        lit ''lemonade'', lit ''beer'', lit ''wine'', lit ''energy drink''], ''Beverages''),
     (alts [plural ''chip'', lit ''cookie'', lit ''cracker'', lit ''pretzel'',
        lit ''popcorn'', lit ''candy'', lit ''chocolate'', lit ''gum'', lit ''snack'',
        lit ''goldfish'', lit ''cheeto'', lit ''dorito'', lit ''frito'', lit ''pringles'',
        lit ''oreo'', lit ''ritz'', lit ''wheat thin''], ''Snacks''),
     (alts [lit ''cereal'', lit ''oat'', lit ''granola'', lit ''cheerio'',
        lit ''frosted flake'', lit ''special k'', lit ''raisin bran''], ''Cereal''),
     (alts [lit ''paper towel'', lit ''toilet paper'', lit ''tissue'', lit ''napkin'',
        lit ''bounty'', lit ''charmin'', lit ''scott'', lit ''cottonelle'', lit ''kleenex''],
      ''Paper Goods''),
     (alts [lit ''soap'', lit ''shampoo'', lit ''conditioner'', lit ''detergent'',
        lit ''cleaner'', lit ''dish'', lit ''laundry'', lit ''tide'', lit ''dawn'',
        lit ''lysol'', lit ''clorox'', lit ''toothpaste'', lit ''deodorant''], ''Household''),
     (alts [lit ''ice cream'', lit ''frozen'', lit ''pizza'', lit ''bagel bite'',
        lit ''hot pocket'', lit ''totino'', lit ''digiorno'', lit ''stouffer'',
        lit ''lean cuisine''], ''Frozen''),
     (alts [lit ''bread'', lit ''bagel'', lit ''muffin'', lit ''roll'', lit ''bun'',
        lit ''tortilla'', lit ''wrap'', lit ''pita'', lit ''croissant'',
        lit ''english muffin''], ''Bakery''),
     (alts [lit ''yogurt'', lit ''cheese'', lit ''butter'', lit ''cream cheese'',
        lit ''sour cream'', lit ''cottage cheese'', lit ''milk'', lit ''egg''], ''Dairy''),
     (alts [lit ''sauce'', lit ''ketchup'', lit ''mustard'', lit ''mayo'', lit ''dressing'',
        lit ''salsa'', lit ''soup'', lit ''broth'', lit ''pasta'', lit ''rice'', lit ''bean'',
        lit ''canned''], ''Pantry''),
     (alts [lit ''chicken'', lit ''beef'', lit ''pork'', lit ''turkey'', lit ''bacon'',
        lit ''sausage'', lit ''hot dog'', lit ''deli'', lit ''meat'', lit ''fish'',
        lit ''shrimp'', lit ''salmon''], ''Meat''),
     (alts [lit ''peanut butter'', lit ''jam'', lit ''jelly'', lit ''honey'', lit ''syrup'',
        lit ''spread'', lit ''nutella''], ''Spreads'')]"

definition guess_category :: "string \<Rightarrow> string" where
  "guess_category text =
     (let t = py_lower text
      in case find (\<lambda>rc. re_search False (fst rc) t \<noteq> None) category_table of
           None \<Rightarrow> ''Other''
         | Some rc \<Rightarrow> snd rc)"

record staging_row = staging_entry +
  row_id :: string

record product =
  p_upc :: string
  p_name :: string
  p_brand :: "string option"
  p_category :: string
  p_current_size :: rat
  p_unit :: string
  p_type :: string
  p_repeat_offender :: bool
  p_source :: string

record event =
  ev_upc :: string
  ev_date :: string
  ev_old_size :: rat
  ev_new_size :: rat
  ev_unit :: string
  ev_pct :: rat
  ev_price_before :: "rat option"
  ev_price_after :: "rat option"
  ev_type :: string
  ev_notes :: string
  ev_source :: string

record db =
  staging :: "staging_row list"
  products :: "product list"
  events :: "event list"

text \<open>
  The database client is outside the repository. A write can raise; which calls go
  through is a parameter of the model, a predicate on the calls.
\<close>

datatype db_call =
    SelectPending
  | UpsertProduct string
  | InsertEvent string
  | MarkPromoted string

definition truthy_num :: "rat option \<Rightarrow> bool" where
  \<comment> \<open>the truth value of an optional number: false for \<open>None\<close> and for zero\<close>
  "truthy_num x = (case x of None \<Rightarrow> False | Some v \<Rightarrow> v \<noteq> 0)"

definition py_truediv :: "rat \<Rightarrow> rat \<Rightarrow> py_error + rat" where
  "py_truediv a b = (if b = 0 then Inl ZeroDivisionError else Inr (a / b))"

definition py_round2 :: "rat \<Rightarrow> rat" where
  \<comment> \<open>\<open>round(x, 2)\<close>: to the nearest hundredth, a tie to the even one\<close>
  "py_round2 x =
     (let y = x * 100; f = \<lfloor>y\<rfloor>; d = y - of_int f
      in of_int (if d < 1 / 2 then f else if d > 1 / 2 then f + 1
                 else if even f then f else f + 1) / 100)"

definition shrink_pct :: "rat \<Rightarrow> rat \<Rightarrow> py_error + rat" where
  \<comment> \<open>\<open>round(((old_s - new_s) / old_s) * 100, 2) if old_s > 0 else 0\<close>\<close>
  "shrink_pct old_s new_s =
     (if old_s > 0
      then (case py_truediv (old_s - new_s) old_s of
              Inl e \<Rightarrow> Inl e
            | Inr q \<Rightarrow> Inr (py_round2 (q * 100)))
      else Inr 0)"

definition entry_unit :: "'a staging_entry_scheme \<Rightarrow> string" where
  \<comment> \<open>\<open>entry.get("new_unit") or entry.get("old_unit") or "oz"\<close>\<close>
  "entry_unit e =
     (if truthy_str (new_unit e) then the (new_unit e)
      else if truthy_str (old_unit e) then the (old_unit e)
      else ''oz'')"

definition entry_date :: "'a staging_entry_scheme \<Rightarrow> py_error + string" where
  \<comment> \<open>\<open>entry.get("date_noticed") or entry.get("posted_utc", "")[:10]\<close>: slicing a null
      \<open>posted_utc\<close> raises\<close>
  "entry_date e =
     (if truthy_str (date_noticed e) then Inr (the (date_noticed e))
      else (case posted_utc e of None \<Rightarrow> Inl TypeError | Some s \<Rightarrow> Inr (take 10 s)))"

definition upsert_product :: "product \<Rightarrow> product list \<Rightarrow> product list" where
  \<comment> \<open>\<open>upsert(..., on_conflict="upc")\<close>\<close>
  "upsert_product p ps =
     (if \<exists>q \<in> set ps. p_upc q = p_upc p
      then map (\<lambda>q. if p_upc q = p_upc p then p else q) ps
      else ps @ [p])"

definition mark_promoted :: "string \<Rightarrow> staging_row list \<Rightarrow> staging_row list" where
  \<comment> \<open>\<open>update({"status": "promoted"}).eq("id", id)\<close>\<close>
  "mark_promoted i rows =
     map (\<lambda>r. if row_id r = i then r\<lparr> entry_status := Some Promoted \<rparr> else r) rows"

definition product_of :: "staging_row \<Rightarrow> string \<Rightarrow> product" where
  "product_of e product_name =
     \<lparr> p_upc = ''REDDIT-'' @ take 8 (row_id e),
       p_name = product_name,
       p_brand = brand e,
       p_category = guess_category (product_name @ '' '' @ str_or (brand e) []),
       p_current_size = the (new_size e),
       p_unit = entry_unit e,
       p_type = ''shrinkflation'',
       p_repeat_offender = False,
       p_source = ''reddit_bot'' \<rparr>"

definition event_of :: "staging_row \<Rightarrow> string \<Rightarrow> rat \<Rightarrow> event" where
  "event_of e date pct =
     \<lparr> ev_upc = ''REDDIT-'' @ take 8 (row_id e),
       ev_date = date,
       ev_old_size = the (old_size e),
       ev_new_size = the (new_size e),
       ev_unit = entry_unit e,
       ev_pct = pct,
       ev_price_before = old_price e,
       ev_price_after = new_price e,
       ev_type = ''shrinkflation'',
       ev_notes = ''Auto-imported from r/shrinkflation: '' @ source_url e,
       ev_source = ''reddit_bot'' \<rparr>"

definition promote_entry ::
  "(db_call \<Rightarrow> bool) \<Rightarrow> staging_row \<Rightarrow> nat \<times> db \<Rightarrow> py_error + nat \<times> db" where
  \<comment> \<open>one round of the loop of \<open>promote_auto_entries\<close>; an exception inside the \<open>try\<close>
      is caught and the loop goes on, one outside it leaves the function\<close>
  "promote_entry ok e acc =
     (case acc of (promoted, d) \<Rightarrow>
        if \<not> truthy_num (old_size e) \<or> \<not> truthy_num (new_size e) then Inr (promoted, d)
        else
          (case shrink_pct (the (old_size e)) (the (new_size e)) of
             Inl err \<Rightarrow> Inl err
           | Inr pct \<Rightarrow>
               (case entry_date e of
                  Inl err \<Rightarrow> Inl err
                | Inr date \<Rightarrow>
                    (let upc = ''REDDIT-'' @ take 8 (row_id e);
                         product_name = take 100 (str_or (product_hint e) ''Unknown Product'')
                     in if \<not> ok (UpsertProduct upc) then Inr (promoted, d)
                        else
                          (let d1 = d\<lparr> products :=
                                       upsert_product (product_of e product_name) (products d) \<rparr>
                           in if \<not> ok (InsertEvent upc) then Inr (promoted, d1)
                              else
                                (let d2 = d1\<lparr> events := events d1 @ [event_of e date pct] \<rparr>
                                 in if \<not> ok (MarkPromoted (row_id e)) then Inr (promoted, d2)
                                    else Inr (promoted + 1,
                                      d2\<lparr> staging := mark_promoted (row_id e) (staging d2) \<rparr>)))))))"

fun promote_loop ::
  "(db_call \<Rightarrow> bool) \<Rightarrow> staging_row list \<Rightarrow> nat \<times> db \<Rightarrow> py_error + nat \<times> db" where
  "promote_loop ok [] acc = Inr acc"
| "promote_loop ok (e # es) acc =
     (case promote_entry ok e acc of
        Inl err \<Rightarrow> Inl err
      | Inr acc' \<Rightarrow> promote_loop ok es acc')"

definition pending_auto :: "staging_row \<Rightarrow> bool" where
  \<comment> \<open>the filter of the query: \<open>tier = auto\<close>, \<open>status = pending\<close>\<close>
  "pending_auto e = (entry_tier e = Auto \<and> entry_status e = Some Pending)"

definition promote_auto_entries :: "(db_call \<Rightarrow> bool) \<Rightarrow> db \<Rightarrow> py_error + nat \<times> db" where
  "promote_auto_entries ok d =
     (if \<not> ok SelectPending then Inl DbError
      else promote_loop ok (filter pending_auto (staging d)) (0, d))"

text \<open>
  The staging row of the end-to-end scenario of the specification: the post
  ``Tropicana OJ went from 52oz to 46oz, same price!'', created at 1771000000.
\<close>

definition tropicana_row :: staging_row where
  "tropicana_row =
     \<lparr> brand = Some ''Tropicana'',
       product_hint = Some ''Tropicana OJ went from 52oz to 46oz, same price!'',
       old_size = Some 52, new_size = Some 46,
       old_unit = Some ''oz'', new_unit = Some ''oz'',
       old_price = None, new_price = None,
       fields_found = 3, explicit_from_to = True,
       source_url = ''https://reddit.com/r/shrinkflation/comments/1abcde/tropicana/'',
       entry_subreddit = ''shrinkflation'',
       posted_utc = Some ''2026-02-13T16:26:40'',
       scraped_utc = ''2026-02-20T06:00:01+00:00'',
       entry_tier = Auto,
       entry_status = Some Pending,
       entry_title = ''Tropicana OJ went from 52oz to 46oz, same price!'',
       entry_score = 847,
       entry_num_comments = 142,
       date_noticed = Some ''2026-02-01'',
       row_id = ''3f2a9c1e-7b4d-4e0a-9c56-1234567890ab'' \<rparr>"

definition tropicana_post :: post where
  "tropicana_post =
     \<lparr> permalink = ''/r/shrinkflation/comments/1abcde/tropicana/'',
       title = ''Tropicana OJ went from 52oz to 46oz, same price!'',
       selftext = Some [],
       subreddit = Some ''shrinkflation'',
       created_utc = 1771000000,
       score = 847,
       num_comments = 142 \<rparr>"

definition frugal_post :: post where
  \<comment> \<open>a post of another subreddit, with no topical keyword\<close>
  "frugal_post =
     \<lparr> permalink = ''/r/Frugal/comments/2bcdef/meal_ideas/'',
       title = ''Cheap meal ideas'',
       selftext = None,
       subreddit = Some ''Frugal'',
       created_utc = 1771000600,
       score = 12,
       num_comments = 3 \<rparr>"

definition scenario_clock :: clock where
  \<comment> \<open>a run on 2026-02-20, formatting the time of the two posts (2026-02-13)\<close>
  "scenario_clock =
     \<lparr> now_iso = ''2026-02-20T06:00:01+00:00'',
       now_month = ''2026-02-01'',
       iso_of = (\<lambda>ts. ''2026-02-13T16:26:40''),
       iso_utc_of = (\<lambda>ts. ''2026-02-13T16:26:40+00:00''),
       month_of = (\<lambda>ts. ''2026-02-01'') \<rparr>"

definition empty_db :: db where
  "empty_db = \<lparr> staging = [], products = [], events = [] \<rparr>"

section \<open>The confidence classifier is the threshold rule\<close>

text \<open>
  C3. For every signals record the classifier returns auto exactly when at least three
  fields were found, the brand is set (a non-empty string) and the change was explicit;
  failing that, review exactly when at least one field was found; failing that, discard.
\<close>

theorem confidence_tier_rule:
  "(confidence_tier p = Auto \<longleftrightarrow>
      fields_found p \<ge> 3 \<and> truthy_str (brand p) \<and> explicit_from_to p)
   \<and> (confidence_tier p = Review \<longleftrightarrow>
      \<not> (fields_found p \<ge> 3 \<and> truthy_str (brand p) \<and> explicit_from_to p)
      \<and> fields_found p \<ge> 1)
   \<and> (confidence_tier p = Discard \<longleftrightarrow>
      \<not> (fields_found p \<ge> 3 \<and> truthy_str (brand p) \<and> explicit_from_to p)
      \<and> \<not> fields_found p \<ge> 1)"
  by (simp add: confidence_tier_def TIER_AUTO_THRESHOLD_def TIER_REVIEW_THRESHOLD_def Let_def)

text \<open>
  C9. The tier is monotone in the number of fields found: of two records with the same
  brand and the same explicit flag, the one with at least as many fields is never in a
  lower tier (discard < review < auto).
\<close>

theorem confidence_tier_mono:
  assumes "brand p = brand q" and "explicit_from_to p = explicit_from_to q"
    and "fields_found p \<le> fields_found q"
  shows "tier_rank (confidence_tier p) \<le> tier_rank (confidence_tier q)"
  using assms
  by (auto simp: confidence_tier_def tier_rank_def TIER_AUTO_THRESHOLD_def
      TIER_REVIEW_THRESHOLD_def Let_def)

theorem confidence_tier_mono_witness:
  "confidence_tier (empty_signals\<lparr> brand := Some ''Tide'', explicit_from_to := True,
      fields_found := 2 \<rparr>) = Review
   \<and> confidence_tier (empty_signals\<lparr> brand := Some ''Tide'', explicit_from_to := True,
      fields_found := 3 \<rparr>) = Auto
   \<and> tier_rank (confidence_tier (empty_signals\<lparr> brand := Some ''Tide'',
        explicit_from_to := True, fields_found := 2 \<rparr>))
     \<le> tier_rank (confidence_tier (empty_signals\<lparr> brand := Some ''Tide'',
        explicit_from_to := True, fields_found := 3 \<rparr>))"
  using confidence_tier_mono [of
      "empty_signals\<lparr> brand := Some ''Tide'', explicit_from_to := True, fields_found := 2 \<rparr>"
      "empty_signals\<lparr> brand := Some ''Tide'', explicit_from_to := True, fields_found := 3 \<rparr>"]
  by (simp add: confidence_tier_def empty_signals_def truthy_str_def
      TIER_AUTO_THRESHOLD_def TIER_REVIEW_THRESHOLD_def)

section \<open>The shrink percentage\<close>

lemma shrink_pct_value:
  "shrink_pct old_s new_s =
     Inr (if old_s > 0 then py_round2 ((old_s - new_s) / old_s * 100) else 0)"
  by (simp add: shrink_pct_def py_truediv_def)





section \<open>The unit normalizer\<close>





lemma normalize_unit_examples:
  "normalize_unit (Some ''Ounces '') = ''oz'' \<and> normalize_unit (Some ''fl. oz'') = ''fl oz''
   \<and> normalize_unit (Some ''g'') = ''g'' \<and> normalize_unit (Some ''LBS'') = ''lb''"
  by code_simp

section \<open>The extractor\<close>

subsection \<open>What each step of the extractor changes\<close>

lemma brand_step_frame [simp]:
  "explicit_from_to (brand_step bs t r) = explicit_from_to r"
  "old_size (brand_step bs t r) = old_size r"
  "new_size (brand_step bs t r) = new_size r"
  "old_unit (brand_step bs t r) = old_unit r"
  "new_unit (brand_step bs t r) = new_unit r"
  "old_price (brand_step bs t r) = old_price r"
  "new_price (brand_step bs t r) = new_price r"
  by (simp_all add: brand_step_def split: option.splits)

lemma brand_step_brand:
  "brand (brand_step bs t r) =
     (case find (\<lambda>b. py_in b t) bs of None \<Rightarrow> brand r | Some b \<Rightarrow> Some (py_title b))"
  "fields_found (brand_step bs t r) =
     fields_found r + (if find (\<lambda>b. py_in b t) bs = None then 0 else 1)"
  by (simp_all add: brand_step_def split: option.splits)

lemma explicit_step_frame [simp]:
  "brand (explicit_step mo r) = brand r"
  "old_price (explicit_step mo r) = old_price r"
  "new_price (explicit_step mo r) = new_price r"
  by (simp_all add: explicit_step_def Let_def split: option.splits)

lemma explicit_step_None [simp]: "explicit_step None r = r"
  by (simp add: explicit_step_def)

lemma explicit_step_equal:
  "py_float (group_str m 1) = py_float (group_str m 3) \<Longrightarrow> explicit_step (Some m) r = r"
  by (simp add: explicit_step_def Let_def)


lemma implicit_step_frame [simp]:
  "brand (implicit_step us r) = brand r"
  "explicit_from_to (implicit_step us r) = explicit_from_to r"
  "old_price (implicit_step us r) = old_price r"
  "new_price (implicit_step us r) = new_price r"
  by (simp_all add: implicit_step_def Let_def)

lemma price_step_frame [simp]:
  "brand (price_step ps r) = brand r"
  "explicit_from_to (price_step ps r) = explicit_from_to r"
  "old_size (price_step ps r) = old_size r"
  "new_size (price_step ps r) = new_size r"
  "old_unit (price_step ps r) = old_unit r"
  "new_unit (price_step ps r) = new_unit r"
  by (simp_all add: price_step_def)

lemma price_step_count:
  "fields_found (price_step ps r) = fields_found r + (if length ps \<ge> 2 then 1 else 0)"
  "old_price (price_step ps r) = None \<longleftrightarrow> \<not> (length ps \<ge> 2) \<and> old_price r = None"
  by (simp_all add: price_step_def)

lemma implicit_step_count:
  "old_size r = None \<Longrightarrow>
   fields_found (implicit_step us r)
     = fields_found r + (if old_size (implicit_step us r) \<noteq> None then 1 else 0)"
  by (simp add: implicit_step_def Let_def)

lemma explicit_step_count:
  "\<not> explicit_from_to r \<Longrightarrow>
   fields_found (explicit_step mo r)
     = fields_found r + (if explicit_from_to (explicit_step mo r) then 2 else 0)"
  by (cases mo) (simp_all add: explicit_step_def Let_def)

lemma explicit_step_keeps_old_size:
  "\<not> explicit_from_to (explicit_step mo r) \<Longrightarrow> old_size (explicit_step mo r) = old_size r"
  by (cases mo) (simp_all add: explicit_step_def Let_def split: if_splits)

lemma brand_step_count:
  "brand r = None \<Longrightarrow>
   fields_found (brand_step bs t r)
     = fields_found r + (if brand (brand_step bs t r) \<noteq> None then 1 else 0)"
  by (simp add: brand_step_def split: option.splits)

lemma parse_text_fields_found:
  "fields_found (parse_text text) =
     (if brand (parse_text text) \<noteq> None then 1 else 0)
     + (if explicit_from_to (parse_text text) then 2
        else if old_size (parse_text text) \<noteq> None then 1 else 0)
     + (if old_price (parse_text text) \<noteq> None then 1 else 0)"
proof -
  define r1 where "r1 = brand_step KNOWN_BRANDS (py_lower text) empty_signals"
  define r2 where "r2 = explicit_step (explicit_match text) r1"
  define r3 where "r3 = (if \<not> explicit_from_to r2
      then implicit_step (mentions (re_findall True UNIT_PATTERN text)) r2 else r2)"
  define r4 where
    "r4 = price_step (map (\<lambda>m. group_str m 1) (re_findall True PRICE_PATTERN text)) r3"
  have p: "fields_found (parse_text text) = fields_found r4"
    "brand (parse_text text) = brand r4"
    "explicit_from_to (parse_text text) = explicit_from_to r4"
    "old_size (parse_text text) = old_size r4" "old_price (parse_text text) = old_price r4"
    by (simp_all add: parse_text_def Let_def r1_def r2_def r3_def r4_def)
  have f1: "fields_found r1 = (if brand r1 \<noteq> None then 1 else 0)"
    and o1: "old_size r1 = None" "old_price r1 = None" "\<not> explicit_from_to r1"
    unfolding r1_def
    by (subst brand_step_count) (simp_all add: empty_signals_def)
  have f2: "fields_found r2 = fields_found r1 + (if explicit_from_to r2 then 2 else 0)"
    unfolding r2_def using o1 by (simp add: explicit_step_count)
  have o2: "\<not> explicit_from_to r2 \<Longrightarrow> old_size r2 = None"
    unfolding r2_def using o1 by (simp add: explicit_step_keeps_old_size)
  have b2: "brand r2 = brand r1" "old_price r2 = None"
    unfolding r2_def using o1 by simp_all
  have f3: "fields_found r3 = fields_found r2
      + (if explicit_from_to r3 then 0 else if old_size r3 \<noteq> None then 1 else 0)"
    and e3: "explicit_from_to r3 = explicit_from_to r2"
    and b3: "brand r3 = brand r2" "old_price r3 = None"
    unfolding r3_def using o2 b2 by (simp_all add: implicit_step_count)
  have f4: "fields_found r4 = fields_found r3 + (if old_price r4 \<noteq> None then 1 else 0)"
    and e4: "explicit_from_to r4 = explicit_from_to r3" "brand r4 = brand r3"
      "old_size r4 = old_size r3"
    unfolding r4_def using b3 by (simp_all add: price_step_count)
  show ?thesis
    unfolding p using f1 f2 f3 f4 e3 e4 b2 b3 by simp
qed

lemma praw_explicit_step_fields [simp]:
  "brand (praw_explicit_step m r) = brand r"
  "old_price (praw_explicit_step m r) = old_price r"
  "explicit_from_to (praw_explicit_step m r)"
  "fields_found (praw_explicit_step m r) = fields_found r + 2"
  "old_size (praw_explicit_step m r) = Some (py_float (group_str m 1))"
  "new_size (praw_explicit_step m r) = Some (py_float (group_str m 3))"
  by (simp_all add: praw_explicit_step_def Let_def)

lemma praw_implicit_step_frame [simp]:
  "brand (praw_implicit_step us r) = brand r"
  "explicit_from_to (praw_implicit_step us r) = explicit_from_to r"
  "old_price (praw_implicit_step us r) = old_price r"
  by (simp_all add: praw_implicit_step_def Let_def)

lemma praw_implicit_step_count:
  "old_size r = None \<Longrightarrow>
   fields_found (praw_implicit_step us r)
     = fields_found r
       + (if old_size (praw_implicit_step us r) \<noteq> None
             \<and> old_size (praw_implicit_step us r) \<noteq> new_size (praw_implicit_step us r)
          then 1 else 0)"
  by (simp add: praw_implicit_step_def Let_def)

lemma praw_parse_text_fields_found:
  "fields_found (praw_parse_text text) =
     (if brand (praw_parse_text text) \<noteq> None then 1 else 0)
     + (if explicit_from_to (praw_parse_text text) then 2
        else if old_size (praw_parse_text text) \<noteq> None
                \<and> old_size (praw_parse_text text) \<noteq> new_size (praw_parse_text text)
             then 1 else 0)
     + (if old_price (praw_parse_text text) \<noteq> None then 1 else 0)"
proof -
  define r1 where "r1 = brand_step praw_KNOWN_BRANDS (py_lower text) empty_signals"
  define r3 where "r3 = (case re_search True praw_FROM_TO_PATTERN text of
      Some m \<Rightarrow> praw_explicit_step m r1
    | None \<Rightarrow> praw_implicit_step (mentions (re_findall True praw_UNIT_PATTERN text)) r1)"
  define r4 where
    "r4 = price_step (map (\<lambda>m. group_str m 1) (re_findall True PRICE_PATTERN text)) r3"
  have p: "fields_found (praw_parse_text text) = fields_found r4"
    "brand (praw_parse_text text) = brand r4"
    "explicit_from_to (praw_parse_text text) = explicit_from_to r4"
    "old_size (praw_parse_text text) = old_size r4"
    "new_size (praw_parse_text text) = new_size r4"
    "old_price (praw_parse_text text) = old_price r4"
    unfolding praw_parse_text_def Let_def r4_def r3_def r1_def by simp_all
  have f1: "fields_found r1 = (if brand r1 \<noteq> None then 1 else 0)"
    and o1: "old_size r1 = None" "old_price r1 = None" "\<not> explicit_from_to r1"
    unfolding r1_def
    by (subst brand_step_count) (simp_all add: empty_signals_def)
  have f3: "fields_found r3 = fields_found r1
      + (if explicit_from_to r3 then 2
         else if old_size r3 \<noteq> None \<and> old_size r3 \<noteq> new_size r3 then 1 else 0)"
    and b3: "brand r3 = brand r1" "old_price r3 = None"
    unfolding r3_def using o1
    by (simp_all add: praw_implicit_step_count split: option.splits)
  have f4: "fields_found r4 = fields_found r3 + (if old_price r4 \<noteq> None then 1 else 0)"
    and e4: "explicit_from_to r4 = explicit_from_to r3" "brand r4 = brand r3"
      "old_size r4 = old_size r3" "new_size r4 = new_size r3"
    unfolding r4_def using b3 by (simp_all add: price_step_count)
  show ?thesis
    unfolding p using f1 f3 f4 e4 b3 by simp
qed

text \<open>
  C10. In both extractors the counter is the sum of what the brand step (0 or 1), the
  size steps (2 for an explicit change, else 1 for a counted implicit pair, never both)
  and the price step (0 or 1) add, so it lies between 0 and 4.
\<close>

theorem fields_found_range:
  "fields_found (parse_text text) =
     (if brand (parse_text text) \<noteq> None then 1 else 0)
     + (if explicit_from_to (parse_text text) then 2
        else if old_size (parse_text text) \<noteq> None then 1 else 0)
     + (if old_price (parse_text text) \<noteq> None then 1 else 0)
   \<and> fields_found (parse_text text) \<in> {0..4}
   \<and> fields_found (praw_parse_text text) =
     (if brand (praw_parse_text text) \<noteq> None then 1 else 0)
     + (if explicit_from_to (praw_parse_text text) then 2
        else if old_size (praw_parse_text text) \<noteq> None
                \<and> old_size (praw_parse_text text) \<noteq> new_size (praw_parse_text text)
             then 1 else 0)
     + (if old_price (praw_parse_text text) \<noteq> None then 1 else 0)
   \<and> fields_found (praw_parse_text text) \<in> {0..4}"
proof -
  have a: "fields_found (parse_text text) \<in> {0..4}"
    by (subst parse_text_fields_found) simp
  have b: "fields_found (praw_parse_text text) \<in> {0..4}"
    by (subst praw_parse_text_fields_found) simp
  show ?thesis
    using a b parse_text_fields_found [of "text"] praw_parse_text_fields_found [of "text"]
    by blast
qed

subsection \<open>The explicit step\<close>






lemma praw_parse_text_explicit:
  assumes "re_search True praw_FROM_TO_PATTERN text = Some m"
  shows "explicit_from_to (praw_parse_text text)"
    and "old_size (praw_parse_text text) = Some (py_float (group_str m 1))"
    and "new_size (praw_parse_text text) = Some (py_float (group_str m 3))"
  using assms by (simp_all add: praw_parse_text_def Let_def)

lemma praw_search_40_64:
  "re_search True praw_FROM_TO_PATTERN ''from 40oz to 64oz''
     = Some (''from 40oz to 64oz'', (Some CHR ''z'', []),
         [(4, ''oz''), (3, ''64''), (2, ''oz''), (1, ''40'')])"
  by code_simp

text \<open>The extractor of \<open>reddit_scraper.py\<close> keeps the textual order.\<close>

lemma praw_never_swaps:
  "explicit_from_to (praw_parse_text ''from 40oz to 64oz'')
   \<and> old_size (praw_parse_text ''from 40oz to 64oz'') = Some 40
   \<and> new_size (praw_parse_text ''from 40oz to 64oz'') = Some 64"
proof -
  have "py_float (group_str (''from 40oz to 64oz'', (Some CHR ''z'', []),
         [(4, ''oz''), (3, ''64''), (2, ''oz''), (1, ''40'')]) 1) = 40"
    "py_float (group_str (''from 40oz to 64oz'', (Some CHR ''z'', []),
         [(4, ''oz''), (3, ''64''), (2, ''oz''), (1, ''40'')]) 3) = 64"
    by code_simp+
  then show ?thesis
    using praw_parse_text_explicit [OF praw_search_40_64] by simp
qed



subsection \<open>The implicit step\<close>

lemma parse_text_no_match:
  assumes "explicit_match text = None"
  shows "\<not> explicit_from_to (parse_text text)"
    and "old_size (parse_text text)
      = old_size (implicit_step (mentions (re_findall True UNIT_PATTERN text)) empty_signals)"
    and "new_size (parse_text text)
      = new_size (implicit_step (mentions (re_findall True UNIT_PATTERN text)) empty_signals)"
    and "old_unit (parse_text text)
      = old_unit (implicit_step (mentions (re_findall True UNIT_PATTERN text)) empty_signals)"
    and "new_unit (parse_text text)
      = new_unit (implicit_step (mentions (re_findall True UNIT_PATTERN text)) empty_signals)"
proof -
  have i: "old_size (implicit_step us (brand_step bs t empty_signals))
        = old_size (implicit_step us empty_signals)
      \<and> new_size (implicit_step us (brand_step bs t empty_signals))
        = new_size (implicit_step us empty_signals)
      \<and> old_unit (implicit_step us (brand_step bs t empty_signals))
        = old_unit (implicit_step us empty_signals)
      \<and> new_unit (implicit_step us (brand_step bs t empty_signals))
        = new_unit (implicit_step us empty_signals)" for us bs t
    by (simp add: implicit_step_def Let_def empty_signals_def)
  have y: "\<not> explicit_from_to empty_signals"
    by (simp add: empty_signals_def)
  show "\<not> explicit_from_to (parse_text text)"
    using assms by (simp add: parse_text_def Let_def y)
  show "old_size (parse_text text)
      = old_size (implicit_step (mentions (re_findall True UNIT_PATTERN text)) empty_signals)"
    "new_size (parse_text text)
      = new_size (implicit_step (mentions (re_findall True UNIT_PATTERN text)) empty_signals)"
    "old_unit (parse_text text)
      = old_unit (implicit_step (mentions (re_findall True UNIT_PATTERN text)) empty_signals)"
    "new_unit (parse_text text)
      = new_unit (implicit_step (mentions (re_findall True UNIT_PATTERN text)) empty_signals)"
    using assms by (simp_all add: parse_text_def Let_def i y)
qed

text \<open>
  The implicit step of the public scraper does what C2 says, for a text in which no
  explicit pattern matched: with \<open>us\<close> the mentions of the text, \<open>(v1, u1)\<close> the first
  and \<open>(v2, u2)\<close> the last of them, value and canonical unit.
\<close>

lemma parse_text_implicit_pair:
  assumes "explicit_match text = None"
    and "us = mentions (re_findall True UNIT_PATTERN text)"
    and "v1 = py_float (fst (hd us))" and "u1 = normalize_unit (Some (snd (hd us)))"
    and "v2 = py_float (fst (last us))" and "u2 = normalize_unit (Some (snd (last us)))"
  shows "length us \<ge> 2 \<and> u1 = u2 \<and> v1 \<noteq> v2 \<longrightarrow>
           old_size (parse_text text) = Some (max v1 v2)
           \<and> new_size (parse_text text) = Some (min v1 v2)
           \<and> old_unit (parse_text text) = Some u1 \<and> new_unit (parse_text text) = Some u1
           \<and> fields_found (parse_text text)
               = (if brand (parse_text text) \<noteq> None then 1 else 0) + 1
                 + (if old_price (parse_text text) \<noteq> None then 1 else 0)"
    and "length us = 1 \<longrightarrow>
           new_size (parse_text text) = Some v1 \<and> new_unit (parse_text text) = Some u1
           \<and> old_size (parse_text text) = None \<and> old_unit (parse_text text) = None"
    and "length us \<ge> 2 \<and> (u1 \<noteq> u2 \<or> v1 = v2) \<longrightarrow>
           old_size (parse_text text) = None \<and> new_size (parse_text text) = None
           \<and> old_unit (parse_text text) = None \<and> new_unit (parse_text text) = None"
    and "us = [] \<longrightarrow>
           old_size (parse_text text) = None \<and> new_size (parse_text text) = None"
proof -
  note f = parse_text_no_match [OF assms(1), folded assms(2)]
  show "length us \<ge> 2 \<and> u1 = u2 \<and> v1 \<noteq> v2 \<longrightarrow>
           old_size (parse_text text) = Some (max v1 v2)
           \<and> new_size (parse_text text) = Some (min v1 v2)
           \<and> old_unit (parse_text text) = Some u1 \<and> new_unit (parse_text text) = Some u1
           \<and> fields_found (parse_text text)
               = (if brand (parse_text text) \<noteq> None then 1 else 0) + 1
                 + (if old_price (parse_text text) \<noteq> None then 1 else 0)"
    using f(1) unfolding parse_text_fields_found [of "text"] f(2-5) assms(3-6)
    by (simp add: implicit_step_def Let_def empty_signals_def max_def min_def)
  show "length us = 1 \<longrightarrow>
           new_size (parse_text text) = Some v1 \<and> new_unit (parse_text text) = Some u1
           \<and> old_size (parse_text text) = None \<and> old_unit (parse_text text) = None"
    unfolding f(2-5) assms(3-6)
    by (simp add: implicit_step_def Let_def empty_signals_def)
  show "length us \<ge> 2 \<and> (u1 \<noteq> u2 \<or> v1 = v2) \<longrightarrow>
           old_size (parse_text text) = None \<and> new_size (parse_text text) = None
           \<and> old_unit (parse_text text) = None \<and> new_unit (parse_text text) = None"
    unfolding f(2-5) assms(3-6)
    by (auto simp add: implicit_step_def Let_def empty_signals_def)
  show "us = [] \<longrightarrow>
           old_size (parse_text text) = None \<and> new_size (parse_text text) = None"
    unfolding f(2-5) assms(3-6)
    by (simp add: implicit_step_def Let_def empty_signals_def)
qed

text \<open>
  C2 on \<open>reddit_scraper.py\<close>. Its extractor, on a text with two mentions in different
  units, records the pair as old and new size and counts it as a field.
\<close>

theorem praw_implicit_records_mismatched_units:
  "re_search True praw_FROM_TO_PATTERN ''12oz and 14g'' = None
   \<and> praw_parse_text ''12oz and 14g''
     = \<lparr> brand = None, product_hint = Some ''12oz and 14g'',
         old_size = Some 12, new_size = Some 14,
         old_unit = Some ''oz'', new_unit = Some ''g'',
         old_price = None, new_price = None,
         fields_found = 1, explicit_from_to = False \<rparr>
   \<and> confidence_tier (praw_parse_text ''12oz and 14g'') = Review"
  by code_simp

lemma public_implicit_suppresses_mismatched_units:
  "explicit_match ''12oz and 14g'' = None
   \<and> parse_text ''12oz and 14g''
     = \<lparr> brand = None, product_hint = Some ''12oz and 14g'',
         old_size = None, new_size = None,
         old_unit = None, new_unit = None,
         old_price = None, new_price = None,
         fields_found = 0, explicit_from_to = False \<rparr>"
  by code_simp

section \<open>The promotion engine\<close>

lemma promote_entry_skip:
  "\<not> (truthy_num (old_size e) \<and> truthy_num (new_size e)) \<Longrightarrow>
   promote_entry ok e acc = Inr acc"
  by (cases acc) (auto simp: promote_entry_def)

lemma promote_loop_filter:
  "promote_loop ok rows acc
     = promote_loop ok (filter (\<lambda>e. truthy_num (old_size e) \<and> truthy_num (new_size e)) rows) acc"
proof (induction rows arbitrary: acc)
  case Nil
  then show ?case by simp
next
  case (Cons e rows)
  show ?case
  proof (cases "truthy_num (old_size e) \<and> truthy_num (new_size e)")
    case True
    then show ?thesis
      using Cons.IH by (simp split: sum.splits)
  next
    case False
    then show ?thesis
      using Cons.IH [of acc] promote_entry_skip [OF False, of ok acc] by simp
  qed
qed

lemma promote_entry_success:
  assumes "truthy_num (old_size e)" and "truthy_num (new_size e)"
    and "entry_date e = Inr dt"
    and "ok (UpsertProduct (''REDDIT-'' @ take 8 (row_id e)))"
    and "ok (InsertEvent (''REDDIT-'' @ take 8 (row_id e)))"
    and "ok (MarkPromoted (row_id e))"
  shows "promote_entry ok e (n, d) =
     Inr (n + 1,
       d\<lparr> products := upsert_product
              (product_of e (take 100 (str_or (product_hint e) ''Unknown Product''))) (products d),
           events := events d @ [event_of e dt
              (if the (old_size e) > 0
               then py_round2 ((the (old_size e) - the (new_size e)) / the (old_size e) * 100)
               else 0)],
           staging := mark_promoted (row_id e) (staging d) \<rparr>)"
  using assms by (simp add: promote_entry_def shrink_pct_value Let_def)

lemma entry_unit_cases:
  "(new_unit e = Some u \<and> u \<noteq> [] \<longrightarrow> entry_unit e = u)
   \<and> (\<not> truthy_str (new_unit e) \<and> old_unit e = Some v \<and> v \<noteq> [] \<longrightarrow> entry_unit e = v)
   \<and> (\<not> truthy_str (new_unit e) \<and> \<not> truthy_str (old_unit e) \<longrightarrow> entry_unit e = ''oz'')"
  by (auto simp: entry_unit_def truthy_str_def)

text \<open>
  C7, as amended. The promotion loop has an effect only for the rows whose old and new
  size are both present and non-zero: running it on all rows is running it on those, and
  the query gives it the pending auto rows. Such a row, when its date is there and the
  three writes go through, adds one product, one event and one to the count. The unit
  written to both is the new unit when present and non-empty, else the old unit when
  present and non-empty, else \<open>oz\<close>.
\<close>

theorem promotion_processes_truthy_sizes:
  "promote_loop ok rows acc
     = promote_loop ok (filter (\<lambda>e. truthy_num (old_size e) \<and> truthy_num (new_size e)) rows) acc
   \<and> promote_auto_entries ok d
     = (if ok SelectPending
        then promote_loop ok
               (filter (\<lambda>e. pending_auto e \<and> truthy_num (old_size e) \<and> truthy_num (new_size e))
                  (staging d)) (0, d)
        else Inl DbError)
   \<and> (truthy_num (old_size e) \<and> truthy_num (new_size e) \<and> entry_date e = Inr dt
        \<and> ok (UpsertProduct (''REDDIT-'' @ take 8 (row_id e)))
        \<and> ok (InsertEvent (''REDDIT-'' @ take 8 (row_id e)))
        \<and> ok (MarkPromoted (row_id e))
      \<longrightarrow> (\<exists>p ev. promote_entry ok e (n, d) =
             Inr (n + 1, d\<lparr> products := upsert_product p (products d),
                            events := events d @ [ev],
                            staging := mark_promoted (row_id e) (staging d) \<rparr>)
           \<and> p_unit p = entry_unit e \<and> ev_unit ev = entry_unit e))
   \<and> (new_unit e = Some u \<and> u \<noteq> [] \<longrightarrow> entry_unit e = u)
   \<and> (\<not> truthy_str (new_unit e) \<and> old_unit e = Some v \<and> v \<noteq> [] \<longrightarrow> entry_unit e = v)
   \<and> (\<not> truthy_str (new_unit e) \<and> \<not> truthy_str (old_unit e) \<longrightarrow> entry_unit e = ''oz'')"
proof -
  have a: "promote_auto_entries ok d
     = (if ok SelectPending
        then promote_loop ok
               (filter (\<lambda>e. pending_auto e \<and> truthy_num (old_size e) \<and> truthy_num (new_size e))
                  (staging d)) (0, d)
        else Inl DbError)"
    unfolding promote_auto_entries_def
    by (subst promote_loop_filter) (simp add: conj_commute)
  have b: "truthy_num (old_size e) \<and> truthy_num (new_size e) \<and> entry_date e = Inr dt
        \<and> ok (UpsertProduct (''REDDIT-'' @ take 8 (row_id e)))
        \<and> ok (InsertEvent (''REDDIT-'' @ take 8 (row_id e)))
        \<and> ok (MarkPromoted (row_id e))
      \<longrightarrow> (\<exists>p ev. promote_entry ok e (n, d) =
             Inr (n + 1, d\<lparr> products := upsert_product p (products d),
                            events := events d @ [ev],
                            staging := mark_promoted (row_id e) (staging d) \<rparr>)
           \<and> p_unit p = entry_unit e \<and> ev_unit ev = entry_unit e)"
  proof (intro impI, elim conjE)
    assume h: "truthy_num (old_size e)" "truthy_num (new_size e)" "entry_date e = Inr dt"
      "ok (UpsertProduct (''REDDIT-'' @ take 8 (row_id e)))"
      "ok (InsertEvent (''REDDIT-'' @ take 8 (row_id e)))" "ok (MarkPromoted (row_id e))"
    show "\<exists>p ev. promote_entry ok e (n, d) =
             Inr (n + 1, d\<lparr> products := upsert_product p (products d),
                            events := events d @ [ev],
                            staging := mark_promoted (row_id e) (staging d) \<rparr>)
           \<and> p_unit p = entry_unit e \<and> ev_unit ev = entry_unit e"
      unfolding promote_entry_success [OF h]
      by (intro exI conjI, rule refl) (simp_all add: product_of_def event_of_def)
  qed
  show ?thesis
    using promote_loop_filter [of ok rows acc] a b entry_unit_cases [of e u v]
    by blast
qed

text \<open>
  A pending auto row with both sizes present, the new one being zero, is skipped: the
  guard is Python truthiness.
\<close>

theorem zero_size_skipped_counterexample:
  "pending_auto (tropicana_row\<lparr> new_size := Some 0 \<rparr>)
   \<and> old_size (tropicana_row\<lparr> new_size := Some 0 \<rparr>) = Some 52
   \<and> new_size (tropicana_row\<lparr> new_size := Some 0 \<rparr>) = Some 0
   \<and> promote_auto_entries (\<lambda>c. True)
        (empty_db\<lparr> staging := [tropicana_row\<lparr> new_size := Some 0 \<rparr>] \<rparr>)
      = Inr (0, empty_db\<lparr> staging := [tropicana_row\<lparr> new_size := Some 0 \<rparr>] \<rparr>)"
  by (simp add: promote_auto_entries_def pending_auto_def tropicana_row_def promote_entry_def
      truthy_num_def)

theorem promotion_processes_truthy_sizes_witness:
  "promote_loop (\<lambda>c. True) [tropicana_row\<lparr> new_size := Some 0 \<rparr>, tropicana_row] (0, empty_db)
     = promote_loop (\<lambda>c. True) [tropicana_row] (0, empty_db)
   \<and> (\<exists>p ev. promote_entry (\<lambda>c. True) tropicana_row (0, empty_db)
          = Inr (1, empty_db\<lparr> products := upsert_product p (products empty_db),
                               events := events empty_db @ [ev],
                               staging := mark_promoted (row_id tropicana_row) (staging empty_db) \<rparr>)
        \<and> p_unit p = ''oz'' \<and> ev_unit ev = ''oz'')
   \<and> entry_unit tropicana_row = ''oz''"
proof -
  have u: "entry_unit tropicana_row = ''oz''"
    by (simp add: entry_unit_def tropicana_row_def truthy_str_def)
  have h: "truthy_num (old_size tropicana_row)" "truthy_num (new_size tropicana_row)"
    "entry_date tropicana_row = Inr ''2026-02-01''"
    "\<not> truthy_num (new_size (tropicana_row\<lparr> new_size := Some 0 \<rparr>))"
    by (simp_all add: tropicana_row_def truthy_num_def entry_date_def truthy_str_def)
  show ?thesis
    using promotion_processes_truthy_sizes [of "\<lambda>c. True"
        "[tropicana_row\<lparr> new_size := Some 0 \<rparr>, tropicana_row]" "(0, empty_db)" empty_db
        tropicana_row "''2026-02-01''" 0 "''oz''" "''oz''"] h u
    by simp
qed

section \<open>The dedup registry\<close>

subsection \<open>The loop of the public scraper\<close>

lemma count_tier_frame [simp]:
  "seen (count_tier t s) = seen s"
  "skipped_dup (count_tier t s) = skipped_dup s"
  "no_keyword (count_tier t s) = no_keyword s"
  by (cases t; simp add: count_tier_def)+

lemma process_post_dup:
  "post_url p \<in> known \<Longrightarrow>
   process_post clk known (es, nu, st) p
     = (es, nu, st\<lparr> seen := seen st + 1, skipped_dup := skipped_dup st + 1 \<rparr>)"
  by (simp add: process_post_def Let_def)

lemma process_post_fresh:
  assumes "post_url p \<notin> known"
  shows "\<exists>es' st'. process_post clk known (es, nu, st) p = (es @ es', insert (post_url p) nu, st')
           \<and> (\<forall>e \<in> set es'. source_url e = post_url p)
           \<and> seen st' = seen st + 1 \<and> skipped_dup st' = skipped_dup st
           \<and> no_keyword st' = no_keyword st + (if lacks_keyword p then 1 else 0)"
  using assms by (auto simp: process_post_def Let_def build_entry_def)

lemma foldl_process_post:
  "\<exists>es' st'. foldl (process_post clk known) (es, nu, st) posts
       = (es @ es', nu \<union> post_url ` {p \<in> set posts. post_url p \<notin> known}, st')
     \<and> (\<forall>e \<in> set es'. source_url e \<in> post_url ` {p \<in> set posts. post_url p \<notin> known})
     \<and> seen st' = seen st + length posts
     \<and> skipped_dup st' = skipped_dup st + length (filter (\<lambda>p. post_url p \<in> known) posts)
     \<and> no_keyword st' = no_keyword st
          + length (filter (\<lambda>p. post_url p \<notin> known \<and> lacks_keyword p) posts)"
proof (induction posts arbitrary: es nu st)
  case Nil
  then show ?case by simp
next
  case (Cons p posts)
  show ?case
  proof (cases "post_url p \<in> known")
    case True
    let ?s = "st\<lparr> seen := seen st + 1, skipped_dup := skipped_dup st + 1 \<rparr>"
    obtain es' st' where
      "foldl (process_post clk known) (es, nu, ?s) posts
        = (es @ es', nu \<union> post_url ` {p \<in> set posts. post_url p \<notin> known}, st')"
      "\<forall>e \<in> set es'. source_url e \<in> post_url ` {p \<in> set posts. post_url p \<notin> known}"
      "seen st' = seen ?s + length posts"
      "skipped_dup st' = skipped_dup ?s + length (filter (\<lambda>p. post_url p \<in> known) posts)"
      "no_keyword st' = no_keyword ?s
          + length (filter (\<lambda>p. post_url p \<notin> known \<and> lacks_keyword p) posts)"
      using Cons.IH by blast
    with True show ?thesis
      by (auto simp: process_post_dup intro!: exI [of _ es'])
  next
    case False
    obtain e1 s1 where f: "process_post clk known (es, nu, st) p
          = (es @ e1, insert (post_url p) nu, s1)"
      "\<forall>e \<in> set e1. source_url e = post_url p"
      "seen s1 = seen st + 1" "skipped_dup s1 = skipped_dup st"
      "no_keyword s1 = no_keyword st + (if lacks_keyword p then 1 else 0)"
      using process_post_fresh [OF False] by blast
    obtain es' st' where
      "foldl (process_post clk known) (es @ e1, insert (post_url p) nu, s1) posts
        = ((es @ e1) @ es',
           insert (post_url p) nu \<union> post_url ` {p \<in> set posts. post_url p \<notin> known}, st')"
      "\<forall>e \<in> set es'. source_url e \<in> post_url ` {p \<in> set posts. post_url p \<notin> known}"
      "seen st' = seen s1 + length posts"
      "skipped_dup st' = skipped_dup s1 + length (filter (\<lambda>p. post_url p \<in> known) posts)"
      "no_keyword st' = no_keyword s1
          + length (filter (\<lambda>p. post_url p \<notin> known \<and> lacks_keyword p) posts)"
      using Cons.IH by blast
    with False f show ?thesis
      by (auto intro!: exI [of _ "e1 @ es'"])
  qed
qed

lemma foldl_process_post_all_dup:
  "\<forall>p \<in> set posts. post_url p \<in> known \<Longrightarrow>
   foldl (process_post clk known) (es, nu, st) posts
     = (es, nu, st\<lparr> seen := seen st + length posts,
                     skipped_dup := skipped_dup st + length posts \<rparr>)"
  by (induction posts arbitrary: st) (simp_all add: process_post_dup)

lemma process_posts_dedup:
  assumes "process_posts clk posts known = (entries, new_urls, st)"
  shows "(\<forall>e \<in> set entries. source_url e \<notin> known)
     \<and> new_urls = post_url ` {p \<in> set posts. post_url p \<notin> known}
     \<and> seen st = length posts
     \<and> skipped_dup st = length (filter (\<lambda>p. post_url p \<in> known) posts)
     \<and> no_keyword st = length (filter (\<lambda>p. post_url p \<notin> known \<and> lacks_keyword p) posts)
     \<and> process_posts clk' posts (known \<union> new_urls)
         = ([], {}, stats0\<lparr> seen := length posts, skipped_dup := length posts \<rparr>)"
proof -
  obtain es' st' where f:
    "foldl (process_post clk known) ([], {}, stats0) posts
       = ([] @ es', {} \<union> post_url ` {p \<in> set posts. post_url p \<notin> known}, st')"
    "\<forall>e \<in> set es'. source_url e \<in> post_url ` {p \<in> set posts. post_url p \<notin> known}"
    "seen st' = seen stats0 + length posts"
    "skipped_dup st' = skipped_dup stats0 + length (filter (\<lambda>p. post_url p \<in> known) posts)"
    "no_keyword st' = no_keyword stats0
          + length (filter (\<lambda>p. post_url p \<notin> known \<and> lacks_keyword p) posts)"
    using foldl_process_post [of clk known "[]" "{}" stats0 posts] by blast
  from f(1) assms have e: "entries = es'" "st = st'"
    "new_urls = post_url ` {p \<in> set posts. post_url p \<notin> known}"
    by (simp_all add: process_posts_def)
  have all: "\<forall>p \<in> set posts. post_url p \<in> known \<union> new_urls"
    unfolding e(3) by blast
  have re: "process_posts clk' posts (known \<union> new_urls)
         = ([], {}, stats0\<lparr> seen := length posts, skipped_dup := length posts \<rparr>)"
    unfolding process_posts_def foldl_process_post_all_dup [OF all]
    by (simp add: stats0_def)
  show ?thesis
    using f(2-5) e re by (auto simp: stats0_def)
qed

subsection \<open>The loop of \<open>run_scraper\<close>\<close>

lemma praw_process_post_dup:
  "praw_post_url p \<in> known \<Longrightarrow>
   praw_process_post dry clk known (q, nu, st) p
     = (q, nu, st\<lparr> seen := seen st + 1, skipped_dup := skipped_dup st + 1 \<rparr>)"
  by (simp add: praw_process_post_def Let_def)

lemma praw_process_post_fresh:
  assumes "praw_post_url p \<notin> known"
  shows "\<exists>a r st'. praw_process_post dry clk known (q, nu, st) p
             = (q\<lparr> q_auto := q_auto q @ a, q_review := q_review q @ r \<rparr>,
                insert (praw_post_url p) nu, st')
           \<and> (\<forall>e \<in> set (a @ r). source_url e = praw_post_url p)
           \<and> seen st' = seen st + 1 \<and> skipped_dup st' = skipped_dup st
           \<and> no_keyword st' = no_keyword st
                + (if \<not> has_keyword praw_SHRINK_KEYWORDS (full_text p) then 1 else 0)"
proof -
  have n: "q = q\<lparr> q_auto := q_auto q @ [], q_review := q_review q @ [] \<rparr>"
    by simp
  have k: "\<exists>a r. queue_append t (praw_build_entry clk p parsed t) q
        = q\<lparr> q_auto := q_auto q @ a, q_review := q_review q @ r \<rparr>
      \<and> (\<forall>e \<in> set (a @ r). source_url e = praw_post_url p)" for t parsed
  proof (cases t)
    case Auto
    then show ?thesis
      by (rule_tac x = "[praw_build_entry clk p parsed t]" in exI, rule_tac x = "[]" in exI)
        (simp add: queue_append_def praw_build_entry_def)
  next
    case Review
    then show ?thesis
      by (rule_tac x = "[]" in exI, rule_tac x = "[praw_build_entry clk p parsed t]" in exI)
        (simp add: queue_append_def praw_build_entry_def)
  next
    case Discard
    then show ?thesis
      by (rule_tac x = "[]" in exI, rule_tac x = "[]" in exI) (simp add: queue_append_def)
  qed
  show ?thesis
  proof (cases "\<not> has_keyword praw_SHRINK_KEYWORDS (full_text p)")
    case True
    then show ?thesis
      using assms
      by (rule_tac x = "[]" in exI, rule_tac x = "[]" in exI)
        (simp add: praw_process_post_def Let_def)
  next
    case False
    show ?thesis
    proof (cases "\<not> dry \<and> confidence_tier (praw_parse_text (full_text p)) \<noteq> Discard")
      case True
      obtain a r where "queue_append (confidence_tier (praw_parse_text (full_text p)))
          (praw_build_entry clk p (praw_parse_text (full_text p))
             (confidence_tier (praw_parse_text (full_text p)))) q
        = q\<lparr> q_auto := q_auto q @ a, q_review := q_review q @ r \<rparr>"
        "\<forall>e \<in> set (a @ r). source_url e = praw_post_url p"
        using k by blast
      then show ?thesis
        using assms False True
        by (rule_tac x = a in exI, rule_tac x = r in exI)
          (simp add: praw_process_post_def Let_def)
    next
      case nd: False
      then show ?thesis
        using assms False
        by (rule_tac x = "[]" in exI, rule_tac x = "[]" in exI)
          (auto simp: praw_process_post_def Let_def)
    qed
  qed
qed

lemma foldl_praw_process_post:
  "\<exists>a r st'. foldl (praw_process_post dry clk known) (q, nu, st) posts
       = (q\<lparr> q_auto := q_auto q @ a, q_review := q_review q @ r \<rparr>,
          nu \<union> praw_post_url ` {p \<in> set posts. praw_post_url p \<notin> known}, st')
     \<and> (\<forall>e \<in> set (a @ r).
           source_url e \<in> praw_post_url ` {p \<in> set posts. praw_post_url p \<notin> known})
     \<and> seen st' = seen st + length posts
     \<and> skipped_dup st'
         = skipped_dup st + length (filter (\<lambda>p. praw_post_url p \<in> known) posts)
     \<and> no_keyword st' = no_keyword st
          + length (filter (\<lambda>p. praw_post_url p \<notin> known
                \<and> \<not> has_keyword praw_SHRINK_KEYWORDS (full_text p)) posts)"
proof (induction posts arbitrary: q nu st)
  case Nil
  show ?case
    by (intro exI [of _ "[]"]) simp
next
  case (Cons p posts)
  show ?case
  proof (cases "praw_post_url p \<in> known")
    case True
    let ?s = "st\<lparr> seen := seen st + 1, skipped_dup := skipped_dup st + 1 \<rparr>"
    obtain a r st' where
      "foldl (praw_process_post dry clk known) (q, nu, ?s) posts
        = (q\<lparr> q_auto := q_auto q @ a, q_review := q_review q @ r \<rparr>,
           nu \<union> praw_post_url ` {p \<in> set posts. praw_post_url p \<notin> known}, st')"
      "\<forall>e \<in> set (a @ r).
           source_url e \<in> praw_post_url ` {p \<in> set posts. praw_post_url p \<notin> known}"
      "seen st' = seen ?s + length posts"
      "skipped_dup st'
         = skipped_dup ?s + length (filter (\<lambda>p. praw_post_url p \<in> known) posts)"
      "no_keyword st' = no_keyword ?s
          + length (filter (\<lambda>p. praw_post_url p \<notin> known
                \<and> \<not> has_keyword praw_SHRINK_KEYWORDS (full_text p)) posts)"
      using Cons.IH by blast
    with True show ?thesis
      by (rule_tac x = a in exI, rule_tac x = r in exI, rule_tac x = st' in exI)
        (auto simp: praw_process_post_dup)
  next
    case False
    obtain a1 r1 s1 where f: "praw_process_post dry clk known (q, nu, st) p
          = (q\<lparr> q_auto := q_auto q @ a1, q_review := q_review q @ r1 \<rparr>,
             insert (praw_post_url p) nu, s1)"
      "\<forall>e \<in> set (a1 @ r1). source_url e = praw_post_url p"
      "seen s1 = seen st + 1" "skipped_dup s1 = skipped_dup st"
      "no_keyword s1 = no_keyword st
         + (if \<not> has_keyword praw_SHRINK_KEYWORDS (full_text p) then 1 else 0)"
      using praw_process_post_fresh [OF False] by blast
    let ?q = "q\<lparr> q_auto := q_auto q @ a1, q_review := q_review q @ r1 \<rparr>"
    obtain a r st' where g:
      "foldl (praw_process_post dry clk known) (?q, insert (praw_post_url p) nu, s1) posts
        = (?q\<lparr> q_auto := q_auto ?q @ a, q_review := q_review ?q @ r \<rparr>,
           insert (praw_post_url p) nu
             \<union> praw_post_url ` {p \<in> set posts. praw_post_url p \<notin> known}, st')"
      "\<forall>e \<in> set (a @ r).
           source_url e \<in> praw_post_url ` {p \<in> set posts. praw_post_url p \<notin> known}"
      "seen st' = seen s1 + length posts"
      "skipped_dup st'
         = skipped_dup s1 + length (filter (\<lambda>p. praw_post_url p \<in> known) posts)"
      "no_keyword st' = no_keyword s1
          + length (filter (\<lambda>p. praw_post_url p \<notin> known
                \<and> \<not> has_keyword praw_SHRINK_KEYWORDS (full_text p)) posts)"
      using Cons.IH by blast
    show ?thesis
      using False f g
      by (rule_tac x = "a1 @ a" in exI, rule_tac x = "r1 @ r" in exI, rule_tac x = st' in exI)
        auto
  qed
qed

lemma foldl_praw_process_post_all_dup:
  "\<forall>p \<in> set posts. praw_post_url p \<in> known \<Longrightarrow>
   foldl (praw_process_post dry clk known) (q, nu, st) posts
     = (q, nu, st\<lparr> seen := seen st + length posts,
                    skipped_dup := skipped_dup st + length posts \<rparr>)"
  by (induction posts arbitrary: st) (simp_all add: praw_process_post_dup)

lemma praw_process_posts_dedup:
  assumes "praw_process_posts dry clk posts known q0 = (q, new_urls, st)"
  shows "(\<exists>a r. q_auto q = q_auto q0 @ a \<and> q_review q = q_review q0 @ r
            \<and> (\<forall>e \<in> set (a @ r). source_url e \<notin> known))
     \<and> new_urls = praw_post_url ` {p \<in> set posts. praw_post_url p \<notin> known}
     \<and> seen st = length posts
     \<and> skipped_dup st = length (filter (\<lambda>p. praw_post_url p \<in> known) posts)
     \<and> no_keyword st = length (filter (\<lambda>p. praw_post_url p \<notin> known
                \<and> \<not> has_keyword praw_SHRINK_KEYWORDS (full_text p)) posts)
     \<and> praw_process_posts dry' clk' posts (known \<union> new_urls) q1
         = (q1, {}, stats0\<lparr> seen := length posts, skipped_dup := length posts \<rparr>)"
proof -
  obtain a r st' where f:
    "foldl (praw_process_post dry clk known) (q0, {}, stats0) posts
       = (q0\<lparr> q_auto := q_auto q0 @ a, q_review := q_review q0 @ r \<rparr>,
          {} \<union> praw_post_url ` {p \<in> set posts. praw_post_url p \<notin> known}, st')"
    "\<forall>e \<in> set (a @ r).
           source_url e \<in> praw_post_url ` {p \<in> set posts. praw_post_url p \<notin> known}"
    "seen st' = seen stats0 + length posts"
    "skipped_dup st'
       = skipped_dup stats0 + length (filter (\<lambda>p. praw_post_url p \<in> known) posts)"
    "no_keyword st' = no_keyword stats0
          + length (filter (\<lambda>p. praw_post_url p \<notin> known
                \<and> \<not> has_keyword praw_SHRINK_KEYWORDS (full_text p)) posts)"
    using foldl_praw_process_post [of dry clk known q0 "{}" stats0 posts] by blast
  from f(1) assms have e: "q = q0\<lparr> q_auto := q_auto q0 @ a, q_review := q_review q0 @ r \<rparr>"
    "st = st'" "new_urls = praw_post_url ` {p \<in> set posts. praw_post_url p \<notin> known}"
    by (simp_all add: praw_process_posts_def)
  have all: "\<forall>p \<in> set posts. praw_post_url p \<in> known \<union> new_urls"
    unfolding e(3) by blast
  have re: "praw_process_posts dry' clk' posts (known \<union> new_urls) q1
         = (q1, {}, stats0\<lparr> seen := length posts, skipped_dup := length posts \<rparr>)"
    unfolding praw_process_posts_def foldl_praw_process_post_all_dup [OF all]
    by (simp add: stats0_def)
  have x: "\<exists>a r. q_auto q = q_auto q0 @ a \<and> q_review q = q_review q0 @ r
            \<and> (\<forall>e \<in> set (a @ r). source_url e \<notin> known)"
  proof -
    have "\<forall>e \<in> set (a @ r). source_url e \<notin> known"
    proof
      fix e assume "e \<in> set (a @ r)"
      then obtain p where "source_url e = praw_post_url p" "praw_post_url p \<notin> known"
        using f(2) by blast
      then show "source_url e \<notin> known" by simp
    qed
    then show ?thesis
      unfolding e(1) by (rule_tac x = a in exI, rule_tac x = r in exI) simp
  qed
  show ?thesis
    using x f(3-5) e(2,3) re by (simp add: stats0_def)
qed

text \<open>
  C5. In a run of either loop over a batch of posts and a registry: no entry is emitted
  for a post whose url is in the registry, each such post being counted as a duplicate
  and nothing else; the new-url set is exactly the urls of the other posts, those dropped
  for lacking a keyword (counted as such) included; and a later run over the same posts,
  with the registry merged with the new urls, counts every post as a duplicate, emits
  nothing and evaluates nothing.
\<close>

theorem dedup_registry:
  assumes "process_posts clk posts known = (entries, new_urls, st)"
    and "praw_process_posts dry clk posts known q0 = (q, praw_new_urls, praw_st)"
  shows "(\<forall>e \<in> set entries. source_url e \<notin> known)
     \<and> skipped_dup st = length (filter (\<lambda>p. post_url p \<in> known) posts)
     \<and> no_keyword st = length (filter (\<lambda>p. post_url p \<notin> known \<and> lacks_keyword p) posts)
     \<and> new_urls = post_url ` {p \<in> set posts. post_url p \<notin> known}
     \<and> process_posts clk' posts (known \<union> new_urls)
         = ([], {}, stats0\<lparr> seen := length posts, skipped_dup := length posts \<rparr>)
     \<and> (\<exists>a r. q_auto q = q_auto q0 @ a \<and> q_review q = q_review q0 @ r
            \<and> (\<forall>e \<in> set (a @ r). source_url e \<notin> known))
     \<and> skipped_dup praw_st = length (filter (\<lambda>p. praw_post_url p \<in> known) posts)
     \<and> no_keyword praw_st = length (filter (\<lambda>p. praw_post_url p \<notin> known
                \<and> \<not> has_keyword praw_SHRINK_KEYWORDS (full_text p)) posts)
     \<and> praw_new_urls = praw_post_url ` {p \<in> set posts. praw_post_url p \<notin> known}
     \<and> praw_process_posts dry' clk' posts (known \<union> praw_new_urls) q1
         = (q1, {}, stats0\<lparr> seen := length posts, skipped_dup := length posts \<rparr>)"
  using process_posts_dedup [OF assms(1), of clk']
    praw_process_posts_dedup [OF assms(2), of dry' clk' q1]
  by blast

lemma scenario_urls:
  "post_url tropicana_post = ''https://reddit.com/r/shrinkflation/comments/1abcde/tropicana/''"
  "praw_post_url tropicana_post = ''https://reddit.com/r/shrinkflation/comments/1abcde/tropicana/''"
  "post_url frugal_post = ''https://reddit.com/r/Frugal/comments/2bcdef/meal_ideas/''"
  "praw_post_url frugal_post = ''https://reddit.com/r/Frugal/comments/2bcdef/meal_ideas/''"
  by (simp_all add: post_url_def praw_post_url_def tropicana_post_def frugal_post_def)

lemma frugal_post_lacks_keyword:
  "lacks_keyword frugal_post"
  "\<not> has_keyword praw_SHRINK_KEYWORDS (full_text frugal_post)"
  by code_simp+

theorem dedup_registry_witness:
  "process_posts scenario_clock [tropicana_post, frugal_post] {post_url tropicana_post}
     = ([], {post_url frugal_post}, stats0\<lparr> seen := 2, skipped_dup := 1, no_keyword := 1 \<rparr>)
   \<and> praw_process_posts False scenario_clock [tropicana_post, frugal_post]
        {post_url tropicana_post} \<lparr> q_auto = [], q_review = [] \<rparr>
     = (\<lparr> q_auto = [], q_review = [] \<rparr>, {post_url frugal_post},
        stats0\<lparr> seen := 2, skipped_dup := 1, no_keyword := 1 \<rparr>)
   \<and> process_posts scenario_clock [tropicana_post, frugal_post]
        ({post_url tropicana_post} \<union> {post_url frugal_post})
     = ([], {}, stats0\<lparr> seen := length [tropicana_post, frugal_post],
                          skipped_dup := length [tropicana_post, frugal_post] \<rparr>)
   \<and> praw_process_posts False scenario_clock [tropicana_post, frugal_post]
        ({post_url tropicana_post} \<union> {post_url frugal_post}) \<lparr> q_auto = [], q_review = [] \<rparr>
     = (\<lparr> q_auto = [], q_review = [] \<rparr>, {},
        stats0\<lparr> seen := length [tropicana_post, frugal_post],
                  skipped_dup := length [tropicana_post, frugal_post] \<rparr>)"
proof -
  have r1: "process_posts scenario_clock [tropicana_post, frugal_post] {post_url tropicana_post}
     = ([], {post_url frugal_post}, stats0\<lparr> seen := 2, skipped_dup := 1, no_keyword := 1 \<rparr>)"
    using frugal_post_lacks_keyword
    by (simp add: process_posts_def process_post_def Let_def scenario_urls stats0_def)
  have r2: "praw_process_posts False scenario_clock [tropicana_post, frugal_post]
        {post_url tropicana_post} \<lparr> q_auto = [], q_review = [] \<rparr>
     = (\<lparr> q_auto = [], q_review = [] \<rparr>, {post_url frugal_post},
        stats0\<lparr> seen := 2, skipped_dup := 1, no_keyword := 1 \<rparr>)"
    using frugal_post_lacks_keyword
    by (simp add: praw_process_posts_def praw_process_post_def Let_def scenario_urls stats0_def)
  show ?thesis
    using dedup_registry [OF r1 r2, of scenario_clock False "\<lparr> q_auto = [], q_review = [] \<rparr>"]
      r1 r2
    by blast
qed

text \<open>The end-to-end scenario of the specification, as the extractor reads the post.\<close>

lemma end_to_end_signals:
  "parse_text (full_text tropicana_post)
     = \<lparr> brand = Some ''Tropicana'',
         product_hint = Some ''Tropicana OJ went from 52oz to 46oz, same price!'',
         old_size = Some 52, new_size = Some 46,
         old_unit = Some ''oz'', new_unit = Some ''oz'',
         old_price = None, new_price = None,
         fields_found = 3, explicit_from_to = True \<rparr>"
  by code_simp

end
